theory Spec2Isabelle
  imports Main
begin

section \<open>Python values\<close>

text \<open>
  A Python \<^verbatim>\<open>str\<close> is the list of its code points. \<open>lit\<close> turns a literal of the
  theory into such a string, \<open>ch\<close> one character into its code point.
\<close>

type_synonym pystr = "nat list"

abbreviation ch :: "char \<Rightarrow> nat" where
  "ch c \<equiv> of_char c"

abbreviation lit :: "string \<Rightarrow> pystr" where
  "lit s \<equiv> map of_char s"

text \<open>An exception object: the name of its class and \<^verbatim>\<open>str(ex)\<close>. Every exception of
  the model is an instance of \<^verbatim>\<open>Exception\<close>.\<close>

datatype exn = Exn string pystr

fun str_exn :: "exn \<Rightarrow> pystr" where
  "str_exn (Exn cls msg) = msg"

text \<open>
  The values \<^verbatim>\<open>get_value\<close> hands to \<^verbatim>\<open>run_task\<close> are typed \<^verbatim>\<open>Any\<close>. The code
  inspects them with \<^verbatim>\<open>isinstance\<close> for \<^verbatim>\<open>dict\<close>, \<^verbatim>\<open>IntEnum\<close> and \<^verbatim>\<open>list\<close>, and
  hands everything else to \<^verbatim>\<open>str\<close>. An \<open>atom\<close> is a value that is neither a list nor
  a dict; dict keys are atoms (lists and dicts are unhashable).

  \<^item> a float is carried by its \<^verbatim>\<open>repr\<close> text, no float arithmetic is modelled;
  \<^item> an \<^verbatim>\<open>IntEnum\<close> member is carried by its \<^verbatim>\<open>str\<close> text (which depends on the
    Python version) and its integer \<^verbatim>\<open>value\<close>;
  \<^item> \<open>AObj ty s j\<close> is an object of any other type (a tuple, a named tuple, a set,
    bytes, an instance of a class): \<open>ty\<close> is the name of its type, \<open>s\<close> its \<^verbatim>\<open>str\<close>
    text, \<open>j\<close> what \<^verbatim>\<open>json.dumps\<close> returns or raises for it;
  \<^item> a dict is the list of its items in insertion order.
\<close>

datatype atom =
    ANone
  | ABool bool
  | AInt int
  | AFloat pystr
  | AStr pystr
  | AIntEnum pystr int
  | AObj string pystr "exn + pystr"

datatype pyval =
    Atom atom
  | PList "pyval list"
  | PDict "(atom \<times> pyval) list"

section \<open>The interpreter's \<^verbatim>\<open>str\<close> and \<^verbatim>\<open>json.dumps\<close>\<close>

subsection \<open>\<^verbatim>\<open>str\<close> of an integer\<close>

definition digit_char :: "nat \<Rightarrow> nat" where
  "digit_char d = 48 + d mod 10"

fun str_nat :: "nat \<Rightarrow> pystr" where
  "str_nat n = (if n < 10 then [digit_char n] else str_nat (n div 10) @ [digit_char (n mod 10)])"

declare str_nat.simps [simp del]

text \<open>
  The conversion of an \<^verbatim>\<open>int\<close> to decimal text. \<open>lim\<close> is the interpreter's
  \<^verbatim>\<open>sys.get_int_max_str_digits()\<close>: with a limit other than 0 (4300 unless configured),
  converting an integer of more digits raises \<^verbatim>\<open>ValueError\<close>.
\<close>

definition str_int :: "nat \<Rightarrow> int \<Rightarrow> exn + pystr" where
  "str_int lim i =
     (let ds = str_nat (nat \<bar>i\<bar>) in
      if lim \<noteq> 0 \<and> lim < length ds then
        Inl (Exn ''ValueError''
               (lit ''Exceeds the limit ('' @ str_nat lim @
                lit '' digits) for integer string conversion; use sys.set_int_max_str_digits() to increase the limit''))
      else Inr (if i < 0 then ch (CHR ''-'') # ds else ds))"

text \<open>\<^verbatim>\<open>str(v)\<close> for a value that is neither a list nor a dict.\<close>

fun builtin_str :: "nat \<Rightarrow> atom \<Rightarrow> exn + pystr" where
  "builtin_str lim ANone = Inr (lit ''None'')"
| "builtin_str lim (ABool b) = Inr (if b then lit ''True'' else lit ''False'')"
| "builtin_str lim (AInt i) = str_int lim i"
| "builtin_str lim (AFloat r) = Inr r"
| "builtin_str lim (AStr s) = Inr s"
| "builtin_str lim (AIntEnum s i) = Inr s"
| "builtin_str lim (AObj ty s j) = Inr s"

subsection \<open>\<^verbatim>\<open>json.dumps\<close> with its default arguments\<close>

text \<open>
  \<^verbatim>\<open>ensure_ascii=True\<close>: inside a string literal the quote, the backslash and every
  character outside the range from space to tilde are escaped; the short escapes first,
  \<^verbatim>\<open>\uXXXX\<close> with four lower-case hex digits otherwise, and a code point from 0x10000
  on as the two escapes of its surrogate pair.
\<close>

definition hex_char :: "nat \<Rightarrow> nat" where
  "hex_char d = (if d mod 16 < 10 then 48 + d mod 16 else 87 + d mod 16)"

definition u_escape :: "nat \<Rightarrow> pystr" where
  "u_escape n =
     [ch (CHR 0x5C), ch (CHR ''u''),
      hex_char (n div 4096), hex_char (n div 256), hex_char (n div 16), hex_char n]"

definition json_escape_char :: "nat \<Rightarrow> pystr" where
  "json_escape_char c =
     (if c = ch (CHR ''\"'') then [ch (CHR 0x5C), ch (CHR ''\"'')]
      else if c = ch (CHR 0x5C) then [ch (CHR 0x5C), ch (CHR 0x5C)]
      else if c = ch (CHR 0x0A) then [ch (CHR 0x5C), ch (CHR ''n'')]
      else if c = ch (CHR 0x0D) then [ch (CHR 0x5C), ch (CHR ''r'')]
      else if c = ch (CHR 0x09) then [ch (CHR 0x5C), ch (CHR ''t'')]
      else if c = ch (CHR 0x08) then [ch (CHR 0x5C), ch (CHR ''b'')]
      else if c = ch (CHR 0x0C) then [ch (CHR 0x5C), ch (CHR ''f'')]
      else if 32 \<le> c \<and> c \<le> 126 then [c]
      else if c < 0x10000 then u_escape c
      else u_escape (0xD800 + ((c - 0x10000) div 1024) mod 1024)
           @ u_escape (0xDC00 + (c - 0x10000) mod 1024))"

definition json_str :: "pystr \<Rightarrow> pystr" where
  "json_str s = ch (CHR ''\"'') # concat (map json_escape_char s) @ [ch (CHR ''\"'')]"

text \<open>A float is written with \<^verbatim>\<open>float.__repr__\<close>, the three non-finite values with
  their JavaScript names (\<^verbatim>\<open>allow_nan=True\<close>).\<close>

definition json_float :: "pystr \<Rightarrow> pystr" where
  "json_float r =
     (if r = lit ''nan'' then lit ''NaN''
      else if r = lit ''inf'' then lit ''Infinity''
      else if r = lit ''-inf'' then lit ''-Infinity''
      else r)"

text \<open>A dict key must be \<^verbatim>\<open>str\<close>, \<^verbatim>\<open>int\<close>, \<^verbatim>\<open>float\<close>, \<^verbatim>\<open>bool\<close> or \<^verbatim>\<open>None\<close>
  (\<^verbatim>\<open>skipkeys=False\<close>); it is written as a string literal.\<close>

fun json_key :: "nat \<Rightarrow> atom \<Rightarrow> exn + pystr" where
  "json_key lim (AStr s) = Inr (json_str s)"
| "json_key lim (AFloat r) = Inr (json_str (json_float r))"
| "json_key lim (ABool b) = Inr (json_str (if b then lit ''true'' else lit ''false''))"
| "json_key lim ANone = Inr (json_str (lit ''null''))"
| "json_key lim (AInt i) =
     (case str_int lim i of Inl e \<Rightarrow> Inl e | Inr ds \<Rightarrow> Inr (json_str ds))"
| "json_key lim (AIntEnum s i) =
     (case str_int lim i of Inl e \<Rightarrow> Inl e | Inr ds \<Rightarrow> Inr (json_str ds))"
| "json_key lim (AObj ty s j) =
     Inl (Exn ''TypeError'' (lit ''keys must be str, int, float, bool or None, not '' @ lit ty))"

fun json_atom :: "nat \<Rightarrow> atom \<Rightarrow> exn + pystr" where
  "json_atom lim (AStr s) = Inr (json_str s)"
| "json_atom lim ANone = Inr (lit ''null'')"
| "json_atom lim (ABool b) = Inr (if b then lit ''true'' else lit ''false'')"
| "json_atom lim (AInt i) = str_int lim i"
| "json_atom lim (AIntEnum s i) = str_int lim i"
| "json_atom lim (AFloat r) = Inr (json_float r)"
| "json_atom lim (AObj ty s j) = j"

text \<open>
  The encoder walks the value left to right and stops at the first object it cannot
  write. \<open>dumps_items\<close> and \<open>dumps_members\<close> write the elements of a list and the items
  of a dict, separated by \<^verbatim>\<open>", "\<close>; key and value are separated by \<^verbatim>\<open>": "\<close>.
\<close>

fun dumps :: "nat \<Rightarrow> pyval \<Rightarrow> exn + pystr"
  and dumps_items :: "nat \<Rightarrow> pyval list \<Rightarrow> exn + pystr"
  and dumps_members :: "nat \<Rightarrow> (atom \<times> pyval) list \<Rightarrow> exn + pystr" where
  "dumps lim (Atom a) = json_atom lim a"
| "dumps lim (PList vs) =
     (case dumps_items lim vs of Inl e \<Rightarrow> Inl e | Inr s \<Rightarrow> Inr (lit ''['' @ s @ lit '']''))"
| "dumps lim (PDict kvs) =
     (case dumps_members lim kvs of Inl e \<Rightarrow> Inl e | Inr s \<Rightarrow> Inr (lit ''{'' @ s @ lit ''}''))"
| "dumps_items lim [] = Inr []"
| "dumps_items lim (v # vs) =
     (case dumps lim v of
        Inl e \<Rightarrow> Inl e
      | Inr s \<Rightarrow>
          (case dumps_items lim vs of
             Inl e \<Rightarrow> Inl e
           | Inr r \<Rightarrow> Inr (if vs = [] then s else s @ lit '', '' @ r)))"
| "dumps_members lim [] = Inr []"
| "dumps_members lim (kv # kvs) =
     (case json_key lim (fst kv) of
        Inl e \<Rightarrow> Inl e
      | Inr k \<Rightarrow>
          (case dumps lim (snd kv) of
             Inl e \<Rightarrow> Inl e
           | Inr s \<Rightarrow>
               (case dumps_members lim kvs of
                  Inl e \<Rightarrow> Inl e
                | Inr r \<Rightarrow>
                    Inr (if kvs = [] then k @ lit '': '' @ s
                         else k @ lit '': '' @ s @ lit '', '' @ r))))"

section \<open>The client, the process and their surroundings\<close>

text \<open>What \<^verbatim>\<open>mqttc.publish(topic, payload, qos=..., retain=...)\<close> hands to the transport.\<close>

record publish =
  pub_topic :: pystr
  pub_payload :: pystr
  pub_qos :: int
  pub_retain :: bool

text \<open>
  The \<^verbatim>\<open>paho.Client\<close> object, as far as this module drives it: the arguments of its
  construction, the last will, the subscriptions and the publishes it has accepted,
  each in call order.
\<close>

record paho_client =
  client_id :: pystr
  clean_session :: bool
  will :: "publish option"
  subscriptions :: "(pystr \<times> int) list"
  published :: "publish list"

text \<open>An \<^verbatim>\<open>MqttClient\<close> instance. The attribute \<^verbatim>\<open>mqttc\<close> is the last one
  \<^verbatim>\<open>__init__\<close> sets: an instance whose construction failed before has none.\<close>

record client =
  connected :: bool
  topic_prefix :: pystr
  request_topic :: pystr
  qos :: int
  retain :: bool
  mqttc :: "paho_client option"

text \<open>The interpreter's state that the module reads and writes: \<^verbatim>\<open>__debug__\<close> (false
  under \<^verbatim>\<open>python -O\<close>, where \<^verbatim>\<open>assert\<close> statements are not compiled) and the module's
  global \<^verbatim>\<open>theClient\<close>.\<close>

record process =
  py_debug :: bool
  theClient :: "client option"

text \<open>A constructed \<^verbatim>\<open>Topic\<close> object, given by what its four methods return.\<close>

record topic =
  is_multitopic :: bool
  get_subtopic :: "pystr \<Rightarrow> pystr"
  get_topic :: pystr
  get_error_topic :: pystr

text \<open>
  Everything the module calls and does not define is a parameter:
  \<^item> \<open>get_value\<close> and the constructor \<open>Topic\<close>, from the other modules of the repository;
    either may raise;
  \<^item> the interpreter's \<^verbatim>\<open>str\<close> (on a value that is neither list nor dict) and
    \<^verbatim>\<open>json.dumps\<close>; either may raise;
  \<^item> the transport library: whether \<^verbatim>\<open>paho.Client(...)\<close>, \<^verbatim>\<open>publish\<close> and
    \<^verbatim>\<open>subscribe\<close> raise for their arguments (\<open>None\<close>: the call returns).
  The statements below hold for every such environment; \<open>builtin_str\<close>, \<open>dumps\<close> above
  and \<open>paho_publish_1_6\<close>, \<open>paho_Client_1_6\<close>, \<open>paho_subscribe_1_6\<close> below give the
  environment of CPython 3.11 and paho-mqtt 1.6.
\<close>

record env =
  get_value :: "pystr \<Rightarrow> exn + pyval"
  Topic :: "pystr \<Rightarrow> exn + topic"
  str :: "atom \<Rightarrow> exn + pystr"
  json_dumps :: "pyval \<Rightarrow> exn + pystr"
  paho_Client :: "pystr \<Rightarrow> bool \<Rightarrow> exn option"
  paho_publish :: "publish \<Rightarrow> exn option"
  paho_subscribe :: "pystr \<Rightarrow> int \<Rightarrow> exn option"

section \<open>The dispatcher's serialisation\<close>

text \<open>\<^verbatim>\<open>payload_as_string\<close>, in the order of the source's tests: dict, IntEnum, not a
  list, list of length one, any other list.\<close>

fun payload_as_string :: "env \<Rightarrow> pyval \<Rightarrow> exn + pystr" where
  "payload_as_string e (PDict kvs) = json_dumps e (PDict kvs)"
| "payload_as_string e (Atom (AIntEnum s i)) = str e (AInt i)"
| "payload_as_string e (Atom a) = str e a"
| "payload_as_string e (PList [v]) = payload_as_string e v"
| "payload_as_string e (PList vs) = json_dumps e (PList vs)"

section \<open>The module\<close>

subsection \<open>\<^verbatim>\<open>MqttClient.__init__\<close>\<close>

text \<open>
  The \<^verbatim>\<open>assert\<close> comes first, then \<^verbatim>\<open>theClient = self\<close>, then the five plain
  attributes, then \<^verbatim>\<open>paho.Client(...)\<close>: when that call raises, the exception leaves
  \<^verbatim>\<open>__init__\<close> and the instance built so far stays registered.
\<close>

definition MqttClient_init ::
  "env \<Rightarrow> pystr \<Rightarrow> bool \<Rightarrow> pystr \<Rightarrow> pystr \<Rightarrow> int \<Rightarrow> bool \<Rightarrow> process \<Rightarrow> (exn + client) \<times> process"
  where
  "MqttClient_init e cid clean prefix request q r st =
     (if py_debug st \<and> theClient st \<noteq> None then (Inl (Exn ''AssertionError'' []), st)
      else
        let self = \<lparr>connected = False, topic_prefix = prefix, request_topic = request,
                     qos = q, retain = r, mqttc = None\<rparr>
        in
          (case paho_Client e cid clean of
             Some ex \<Rightarrow> (Inl ex, st\<lparr>theClient := Some self\<rparr>)
           | None \<Rightarrow>
               let self1 = self\<lparr>mqttc := Some
                     \<lparr>client_id = cid, clean_session = clean,
                      will = Some \<lparr>pub_topic = lit ''clients/psmqtt'',
                                  pub_payload = lit ''Adios!'', pub_qos = 0, pub_retain = False\<rparr>,
                      subscriptions = [], published = []\<rparr>\<rparr>
               in (Inr self1, st\<lparr>theClient := Some self1\<rparr>)))"

subsection \<open>The callbacks\<close>

text \<open>\<^verbatim>\<open>on_connect\<close> subscribes, unless the request topic is empty, and then sets
  \<^verbatim>\<open>connected\<close>; an exception of \<^verbatim>\<open>subscribe\<close> leaves the callback before that.\<close>

definition on_connect :: "env \<Rightarrow> client \<Rightarrow> exn option \<times> client" where
  "on_connect e self =
     (if request_topic self \<noteq> [] then
        (case paho_subscribe e (request_topic self @ lit ''#'') (qos self) of
           Some ex \<Rightarrow> (Some ex, self)
         | None \<Rightarrow>
             (None, self\<lparr>connected := True,
                         mqttc := map_option
                           (\<lambda>m. m\<lparr>subscriptions :=
                                    subscriptions m @ [(request_topic self @ lit ''#'', qos self)]\<rparr>)
                           (mqttc self)\<rparr>))
      else (None, self\<lparr>connected := True\<rparr>))"

text \<open>\<^verbatim>\<open>on_disconnect\<close> logs and sleeps; it changes no field. Time is not part of the
  state.\<close>

definition on_disconnect :: "client \<Rightarrow> client" where
  "on_disconnect self = self"

subsection \<open>\<^verbatim>\<open>run_task\<close>\<close>

definition startswith :: "pystr \<Rightarrow> pystr \<Rightarrow> bool" where
  "startswith s p = (take (length p) s = p)"

text \<open>
  \<^verbatim>\<open>mqttc_publish\<close>: the exception it raises, if any, and the client afterwards. The
  attribute \<^verbatim>\<open>self.mqttc\<close> is read first; the publish is added to those the transport
  has accepted when \<^verbatim>\<open>publish\<close> returns.
\<close>

definition no_mqttc :: exn where
  "no_mqttc =
     Exn ''AttributeError''
       (lit [CHR 0x27] @ lit ''MqttClient'' @ lit [CHR 0x27] @ lit '' object has no attribute '' @
        lit [CHR 0x27] @ lit ''mqttc'' @ lit [CHR 0x27])"

definition mqttc_publish :: "env \<Rightarrow> client \<Rightarrow> pystr \<Rightarrow> pystr \<Rightarrow> exn option \<times> client" where
  "mqttc_publish e self t payload =
     (case mqttc self of
        None \<Rightarrow> (Some no_mqttc, self)
      | Some m \<Rightarrow>
          let p = \<lparr>pub_topic = t, pub_payload = payload, pub_qos = qos self,
                   pub_retain = retain self\<rparr>
          in
            (case paho_publish e p of
               Some ex \<Rightarrow> (Some ex, self)
             | None \<Rightarrow> (None, self\<lparr>mqttc := Some (m\<lparr>published := published m @ [p]\<rparr>)\<rparr>)))"

text \<open>The two loops. An exception leaves the loop at once; what was published before
  stays published. The result is the exception, if any, and the client as it is then.\<close>

fun publish_list :: "env \<Rightarrow> topic \<Rightarrow> nat \<Rightarrow> pyval list \<Rightarrow> client \<Rightarrow> exn option \<times> client" where
  "publish_list e t i [] self = (None, self)"
| "publish_list e t i (v # vs) self =
     (case str e (AInt (int i)) of
        Inl ex \<Rightarrow> (Some ex, self)
      | Inr k \<Rightarrow>
          (let subtopic = get_subtopic t k in
           case payload_as_string e v of
             Inl ex \<Rightarrow> (Some ex, self)
           | Inr s \<Rightarrow>
               (case mqttc_publish e self subtopic s of
                  (Some ex, self1) \<Rightarrow> (Some ex, self1)
                | (None, self1) \<Rightarrow> publish_list e t (i + 1) vs self1)))"

fun publish_dict ::
  "env \<Rightarrow> topic \<Rightarrow> (atom \<times> pyval) list \<Rightarrow> client \<Rightarrow> exn option \<times> client" where
  "publish_dict e t [] self = (None, self)"
| "publish_dict e t (kv # kvs) self =
     (case str e (fst kv) of
        Inl ex \<Rightarrow> (Some ex, self)
      | Inr k \<Rightarrow>
          (let subtopic = get_subtopic t k in
           case payload_as_string e (snd kv) of
             Inl ex \<Rightarrow> (Some ex, self)
           | Inr s \<Rightarrow>
               (case mqttc_publish e self subtopic s of
                  (Some ex, self1) \<Rightarrow> (Some ex, self1)
                | (None, self1) \<Rightarrow> publish_dict e t kvs self1)))"

fun is_seq :: "pyval \<Rightarrow> bool" where
  "is_seq (PList vs) = True"
| "is_seq (PDict kvs) = True"
| "is_seq (Atom a) = False"

definition several_values :: "pystr \<Rightarrow> exn" where
  "several_values task =
     Exn ''Exception''
       (lit ''Result of task '' @ lit [CHR 0x27] @ task @ lit [CHR 0x27] @
        lit '' has several values but topic doesn'' @ lit [CHR 0x27] @ lit ''t contain '' @
        lit [CHR 0x27] @ lit ''*'' @ lit [CHR 0x27] @ lit '' char'')"

text \<open>The body of the \<^verbatim>\<open>try\<close> statement.\<close>

definition try_body :: "env \<Rightarrow> pystr \<Rightarrow> topic \<Rightarrow> client \<Rightarrow> exn option \<times> client" where
  "try_body e task t self =
     (case get_value e task of
        Inl ex \<Rightarrow> (Some ex, self)
      | Inr payload \<Rightarrow>
          if is_seq payload \<and> \<not> is_multitopic t then (Some (several_values task), self)
          else
            (case payload of
               PList vs \<Rightarrow> publish_list e t 0 vs self
             | PDict kvs \<Rightarrow> publish_dict e t kvs self
             | Atom a \<Rightarrow>
                 (case payload_as_string e payload of
                    Inl ex \<Rightarrow> (Some ex, self)
                  | Inr s \<Rightarrow> mqttc_publish e self (get_topic t) s)))"

text \<open>The task with the topic prefix stripped if it has it, and the name the
  \<^verbatim>\<open>Topic\<close> is built from: the topic name, with the topic prefix put in front unless it
  has it already.\<close>

definition stripped_task :: "client \<Rightarrow> pystr \<Rightarrow> pystr" where
  "stripped_task self task =
     (if startswith task (topic_prefix self) then drop (length (topic_prefix self)) task
      else task)"

definition full_topic_name :: "client \<Rightarrow> pystr \<Rightarrow> pystr" where
  "full_topic_name self topic_name =
     (if startswith topic_name (topic_prefix self) then topic_name
      else topic_prefix self @ topic_name)"

text \<open>
  \<^verbatim>\<open>run_task\<close>: the result is the exception that leaves the function, if any, and the
  process as it is then. Without a client the \<^verbatim>\<open>assert\<close> fails, or, where asserts are
  not compiled, the first attribute access on \<^verbatim>\<open>None\<close> does. The \<^verbatim>\<open>Topic\<close> is built
  before the \<^verbatim>\<open>try\<close>. The handler publishes \<^verbatim>\<open>str(ex)\<close> to the error topic; it is
  inside no \<^verbatim>\<open>try\<close>, so an exception of that publish leaves \<^verbatim>\<open>run_task\<close>.
\<close>

definition run_task :: "env \<Rightarrow> pystr \<Rightarrow> pystr \<Rightarrow> process \<Rightarrow> exn option \<times> process" where
  "run_task e task topic_name st =
     (case theClient st of
        None \<Rightarrow>
          (Some (if py_debug st then Exn ''AssertionError'' []
                 else Exn ''AttributeError''
                        (lit [CHR 0x27] @ lit ''NoneType'' @ lit [CHR 0x27] @
                         lit '' object has no attribute '' @
                         lit [CHR 0x27] @ lit ''topic_prefix'' @ lit [CHR 0x27])), st)
      | Some self \<Rightarrow>
          (case Topic e (full_topic_name self topic_name) of
             Inl ex \<Rightarrow> (Some ex, st)
           | Inr t \<Rightarrow>
               (case try_body e (stripped_task self task) t self of
                  (None, self1) \<Rightarrow> (None, st\<lparr>theClient := Some self1\<rparr>)
                | (Some ex, self1) \<Rightarrow>
                    (case mqttc_publish e self1 (get_error_topic t) (str_exn ex) of
                       (r, self2) \<Rightarrow> (r, st\<lparr>theClient := Some self2\<rparr>)))))"

text \<open>\<^verbatim>\<open>on_message\<close>: a topic under the request topic is dispatched, with the rest of
  the topic as task and as topic name; any other topic is logged and ignored.\<close>

definition on_message :: "env \<Rightarrow> client \<Rightarrow> pystr \<Rightarrow> process \<Rightarrow> exn option \<times> process" where
  "on_message e self msg_topic st =
     (if startswith msg_topic (request_topic self) then
        (let task = drop (length (request_topic self)) msg_topic in run_task e task task st)
      else (None, st))"

subsection \<open>The events of a process\<close>

text \<open>
  The transport calls back the three methods that \<^verbatim>\<open>__init__\<close> registers after
  \<^verbatim>\<open>paho.Client(...)\<close> has returned, on the client that \<^verbatim>\<open>theClient\<close> holds; the rest of
  the program calls \<^verbatim>\<open>run_task\<close> directly. One step of a process is one such call, with
  whatever the surroundings answer during it.
\<close>

datatype event = Connected | Disconnected | Message pystr

definition handle :: "env \<Rightarrow> event \<Rightarrow> process \<Rightarrow> exn option \<times> process" where
  "handle e ev st =
     (case theClient st of
        None \<Rightarrow> (None, st)
      | Some self \<Rightarrow>
          if mqttc self = None then (None, st)
          else
            (case ev of
               Connected \<Rightarrow>
                 (case on_connect e self of (r, self1) \<Rightarrow> (r, st\<lparr>theClient := Some self1\<rparr>))
             | Disconnected \<Rightarrow> (None, st\<lparr>theClient := Some (on_disconnect self)\<rparr>)
             | Message m \<Rightarrow> on_message e self m st))"

inductive step :: "process \<Rightarrow> process \<Rightarrow> bool" where
  callback: "handle e ev st = (r, st') \<Longrightarrow> step st st'"
| task: "run_task e task topic_name st = (r, st') \<Longrightarrow> step st st'"

section \<open>The transport library\<close>

text \<open>
  What paho-mqtt 1.6 checks before it takes a call, in the order of its code. A string
  is encoded as UTF-8 first, which fails on a surrogate code point; lengths are counted
  in bytes.
\<close>

definition is_surrogate :: "nat \<Rightarrow> bool" where
  "is_surrogate c = (0xD800 \<le> c \<and> c \<le> 0xDFFF)"

definition utf8_length :: "pystr \<Rightarrow> nat" where
  "utf8_length s =
     sum_list (map (\<lambda>c. if c < 0x80 then 1 else if c < 0x800 then 2
                          else if c < 0x10000 then 3 else 4) s)"

definition utf8_encode_error :: "pystr \<Rightarrow> exn option" where
  "utf8_encode_error s =
     (let start = length (takeWhile (\<lambda>c. \<not> is_surrogate c) s);
          run = takeWhile is_surrogate (dropWhile (\<lambda>c. \<not> is_surrogate c) s)
      in
        case run of
          [] \<Rightarrow> None
        | c # cs \<Rightarrow>
            Some (Exn ''UnicodeEncodeError''
              (if cs = [] then
                 lit [CHR 0x27] @ lit ''utf-8'' @ lit [CHR 0x27] @ lit '' codec can'' @
                 lit [CHR 0x27] @ lit ''t encode character '' @ lit [CHR 0x27] @ u_escape c @
                 lit [CHR 0x27] @ lit '' in position '' @ str_nat start @
                 lit '': surrogates not allowed''
               else
                 lit [CHR 0x27] @ lit ''utf-8'' @ lit [CHR 0x27] @ lit '' codec can'' @
                 lit [CHR 0x27] @ lit ''t encode characters in position '' @ str_nat start @
                 lit ''-'' @ str_nat (start + length cs) @ lit '': surrogates not allowed'')))"

definition paho_publish_1_6 :: "publish \<Rightarrow> exn option" where
  "paho_publish_1_6 p =
     (if pub_topic p = [] then Some (Exn ''ValueError'' (lit ''Invalid topic.''))
      else
        (case utf8_encode_error (pub_topic p) of
           Some ex \<Rightarrow> Some ex
         | None \<Rightarrow>
             if ch (CHR ''+'') \<in> set (pub_topic p) \<or> ch (CHR ''#'') \<in> set (pub_topic p)
                \<or> 65535 < utf8_length (pub_topic p)
             then Some (Exn ''ValueError'' (lit ''Publish topic cannot contain wildcards.''))
             else if pub_qos p < 0 \<or> 2 < pub_qos p
             then Some (Exn ''ValueError'' (lit ''Invalid QoS level.''))
             else
               (case utf8_encode_error (pub_payload p) of
                  Some ex \<Rightarrow> Some ex
                | None \<Rightarrow>
                    if 268435455 < utf8_length (pub_payload p)
                    then Some (Exn ''ValueError'' (lit ''Payload too large.''))
                    else None)))"

definition paho_Client_1_6 :: "pystr \<Rightarrow> bool \<Rightarrow> exn option" where
  "paho_Client_1_6 cid clean =
     (if \<not> clean \<and> cid = []
      then Some (Exn ''ValueError'' (lit ''A client id must be provided if clean session is False.''))
      else utf8_encode_error cid)"

text \<open>The levels of a topic filter, and whether one character is followed at once by
  another.\<close>

fun levels :: "pystr \<Rightarrow> pystr list" where
  "levels [] = [[]]"
| "levels (c # cs) =
     (if c = ch (CHR ''/'') then [] # levels cs
      else (case levels cs of [] \<Rightarrow> [[c]] | l # ls \<Rightarrow> (c # l) # ls))"

fun has_pair :: "nat \<Rightarrow> nat \<Rightarrow> pystr \<Rightarrow> bool" where
  "has_pair a b (x # y # s) = ((x = a \<and> y = b) \<or> has_pair a b (y # s))"
| "has_pair a b s = False"

definition paho_subscribe_1_6 :: "pystr \<Rightarrow> int \<Rightarrow> exn option" where
  "paho_subscribe_1_6 t q =
     (if q < 0 \<or> 2 < q then Some (Exn ''ValueError'' (lit ''Invalid QoS level.''))
      else if t = [] then Some (Exn ''ValueError'' (lit ''Invalid topic.''))
      else
        (case utf8_encode_error t of
           Some ex \<Rightarrow> Some ex
         | None \<Rightarrow>
             if 65535 < utf8_length t
                \<or> (\<exists>l\<in>set (levels t). 1 < length l \<and>
                      (ch (CHR ''+'') \<in> set l \<or> ch (CHR ''#'') \<in> set l))
                \<or> has_pair (ch (CHR ''#'')) (ch (CHR ''/'')) t
             then Some (Exn ''ValueError'' (lit ''Invalid subscription filter.''))
             else None))"

section \<open>Vocabulary of the statements\<close>

text \<open>
  The publish that \<^verbatim>\<open>mqttc_publish(t, payload)\<close> makes for the client \<open>self\<close>; the
  exception that handing it over raises, if any; and the client \<open>self\<close> with the
  publishes \<open>new\<close> added to those accepted and nothing else changed.
\<close>

definition mk_publish :: "client \<Rightarrow> pystr \<Rightarrow> pystr \<Rightarrow> publish" where
  "mk_publish self t payload =
     \<lparr>pub_topic = t, pub_payload = payload, pub_qos = qos self, pub_retain = retain self\<rparr>"

definition refusal :: "env \<Rightarrow> client \<Rightarrow> publish \<Rightarrow> exn option" where
  "refusal e self p = (case mqttc self of None \<Rightarrow> Some no_mqttc | Some m \<Rightarrow> paho_publish e p)"

definition with_published :: "client \<Rightarrow> publish list \<Rightarrow> client" where
  "with_published self new =
     self\<lparr>mqttc := map_option (\<lambda>m. m\<lparr>published := published m @ new\<rparr>) (mqttc self)\<rparr>"

text \<open>The publishes the transport has accepted from the registered client.\<close>

definition outbox :: "process \<Rightarrow> publish list" where
  "outbox st =
     (case theClient st of
        None \<Rightarrow> []
      | Some self \<Rightarrow> (case mqttc self of None \<Rightarrow> [] | Some m \<Rightarrow> published m))"

text \<open>
  The elements of a multi-valued result, each with the object whose \<^verbatim>\<open>str\<close> replaces
  the wildcard: the index for a list, the key for a dict. \<open>item_step\<close> is the body of
  either loop for one item: the publish it hands over, or the exception it raises, be
  it in \<^verbatim>\<open>str\<close>, in \<^verbatim>\<open>payload_as_string\<close> or in the transport. \<open>fan_out\<close> is the loop.
\<close>

fun items :: "pyval \<Rightarrow> (atom \<times> pyval) list" where
  "items (PList vs) = zip (map (\<lambda>i. AInt (int i)) [0 ..< length vs]) vs"
| "items (PDict kvs) = kvs"
| "items (Atom a) = []"

definition item_step :: "env \<Rightarrow> client \<Rightarrow> topic \<Rightarrow> atom \<times> pyval \<Rightarrow> exn + publish" where
  "item_step e self t it =
     (case str e (fst it) of
        Inl ex \<Rightarrow> Inl ex
      | Inr k \<Rightarrow>
          (case payload_as_string e (snd it) of
             Inl ex \<Rightarrow> Inl ex
           | Inr s \<Rightarrow>
               (case refusal e self (mk_publish self (get_subtopic t k) s) of
                  Some ex \<Rightarrow> Inl ex
                | None \<Rightarrow> Inr (mk_publish self (get_subtopic t k) s))))"

fun fan_out :: "env \<Rightarrow> topic \<Rightarrow> (atom \<times> pyval) list \<Rightarrow> client \<Rightarrow> exn option \<times> client" where
  "fan_out e t [] self = (None, self)"
| "fan_out e t (it # its) self =
     (case item_step e self t it of
        Inl ex \<Rightarrow> (Some ex, self)
      | Inr p \<Rightarrow> fan_out e t its (with_published self [p]))"

subsection \<open>A concrete setting for the examples\<close>

text \<open>
  A \<^verbatim>\<open>Topic\<close> for the examples: the wildcard is the character \<^verbatim>\<open>*\<close>, a subtopic
  replaces it, the error topic appends \<^verbatim>\<open>/error\<close>. The environment of the examples
  answers every task alike and is CPython's and paho's otherwise. The client of the
  examples is the one \<^verbatim>\<open>MqttClient.__init__\<close> builds from its arguments.
\<close>

definition example_topic :: "pystr \<Rightarrow> topic" where
  "example_topic raw =
     \<lparr>is_multitopic = (ch (CHR ''*'') \<in> set raw),
      get_subtopic = (\<lambda>k. concat (map (\<lambda>c. if c = ch (CHR ''*'') then k else [c]) raw)),
      get_topic = raw,
      get_error_topic = raw @ lit ''/error''\<rparr>"

definition example_env :: "(exn + pyval) \<Rightarrow> env" where
  "example_env answer =
     \<lparr>get_value = (\<lambda>task. answer), Topic = (\<lambda>raw. Inr (example_topic raw)),
      str = builtin_str 4300, json_dumps = dumps 4300,
      paho_Client = paho_Client_1_6, paho_publish = paho_publish_1_6,
      paho_subscribe = paho_subscribe_1_6\<rparr>"

definition fresh_process :: "bool \<Rightarrow> process" where
  "fresh_process dbg = \<lparr>py_debug = dbg, theClient = None\<rparr>"

definition example_client :: client where
  "example_client =
     \<lparr>connected = False, topic_prefix = lit ''psmqtt/host/'',
      request_topic = lit ''psmqtt/host/request/'', qos = 1, retain = True,
      mqttc = Some \<lparr>client_id = lit ''psmqtt'', clean_session = True,
                    will = Some \<lparr>pub_topic = lit ''clients/psmqtt'',
                                pub_payload = lit ''Adios!'', pub_qos = 0, pub_retain = False\<rparr>,
                    subscriptions = [], published = []\<rparr>\<rparr>"

definition example_process :: process where
  "example_process = \<lparr>py_debug = True, theClient = Some example_client\<rparr>"

text \<open>Three dicts for the examples: \<^verbatim>\<open>{"sda": 10, "sdb": 20}\<close>,
  \<^verbatim>\<open>{"a+b": 1, "c#": 2}\<close> and \<^verbatim>\<open>{"sda": 10, "a+b": 20, "sdc": 30}\<close>.\<close>

definition disks :: pyval where
  "disks = PDict [(AStr (lit ''sda''), Atom (AInt 10)), (AStr (lit ''sdb''), Atom (AInt 20))]"

definition wildcard_keys :: pyval where
  "wildcard_keys = PDict [(AStr (lit ''a+b''), Atom (AInt 1)), (AStr (lit ''c#''), Atom (AInt 2))]"

definition mixed_keys :: pyval where
  "mixed_keys =
     PDict [(AStr (lit ''sda''), Atom (AInt 10)), (AStr (lit ''a+b''), Atom (AInt 20)),
            (AStr (lit ''sdc''), Atom (AInt 30))]"

section \<open>Properties of the dispatcher\<close>

subsection \<open>The publish log\<close>

lemma with_published_Nil: "with_published self [] = self"
  by (cases "mqttc self") (simp_all add: with_published_def)

lemma with_published_append:
  "with_published (with_published self a) b = with_published self (a @ b)"
  by (cases "mqttc self") (simp_all add: with_published_def)

lemma with_published_fields:
  "qos (with_published self a) = qos self"
  "retain (with_published self a) = retain self"
  "topic_prefix (with_published self a) = topic_prefix self"
  "request_topic (with_published self a) = request_topic self"
  "(mqttc (with_published self a) = None) = (mqttc self = None)"
  by (simp_all add: with_published_def)

lemma with_published_log:
  "mqttc self = Some m \<Longrightarrow>
   mqttc (with_published self a) = Some (m\<lparr>published := published m @ a\<rparr>)"
  by (simp add: with_published_def)

lemma mk_publish_with_published:
  "mk_publish (with_published self a) t s = mk_publish self t s"
  by (simp add: mk_publish_def with_published_fields)

lemma refusal_with_published:
  "refusal e (with_published self a) p = refusal e self p"
  by (cases "mqttc self") (simp_all add: refusal_def with_published_def)

lemma mqttc_publish_eq:
  "mqttc_publish e self t s =
     (case refusal e self (mk_publish self t s) of
        Some ex \<Rightarrow> (Some ex, self)
      | None \<Rightarrow> (None, with_published self [mk_publish self t s]))"
  by (cases "mqttc self")
    (simp_all add: mqttc_publish_def refusal_def mk_publish_def with_published_def Let_def
      split: option.splits)

lemma item_step_with_published:
  "item_step e (with_published self a) t it = item_step e self t it"
  by (simp add: item_step_def refusal_with_published mk_publish_with_published
      split: sum.splits option.splits)

lemma publish_list_fan_out:
  "publish_list e t i vs self =
     fan_out e t (zip (map (\<lambda>k. AInt (int k)) [i ..< i + length vs]) vs) self"
proof (induction vs arbitrary: i self)
  case Nil
  show ?case by simp
next
  case (Cons x xs)
  have "[i ..< i + length (x # xs)] = i # [Suc i ..< i + length (x # xs)]"
    by (rule upt_conv_Cons) simp
  then have up: "[i ..< i + length (x # xs)] = i # [Suc i ..< Suc i + length xs]"
    by simp
  show ?case
    by (simp only: up)
      (simp add: Cons.IH [of "Suc i"] item_step_def mqttc_publish_eq
        split: sum.splits option.splits)
qed

lemma publish_list_items: "publish_list e t 0 vs self = fan_out e t (items (PList vs)) self"
  by (simp add: publish_list_fan_out)

lemma publish_dict_items: "publish_dict e t kvs self = fan_out e t (items (PDict kvs)) self"
  by (induction kvs arbitrary: self)
    (simp_all add: item_step_def mqttc_publish_eq split: sum.splits option.splits)

lemma fan_out_split:
  "list_all2 (\<lambda>it p. item_step e self t it = Inr p) pre ps \<Longrightarrow>
   fan_out e t (pre @ rest) self = fan_out e t rest (with_published self ps)"
proof (induction pre arbitrary: ps self)
  case Nil
  then show ?case by (simp add: with_published_Nil)
next
  case (Cons x xs)
  from Cons.prems obtain p ps' where ps: "ps = p # ps'" "item_step e self t x = Inr p"
    "list_all2 (\<lambda>it p. item_step e self t it = Inr p) xs ps'"
    by (auto simp: list_all2_Cons1)
  from ps(3) have
    "list_all2 (\<lambda>it q. item_step e (with_published self [p]) t it = Inr q) xs ps'"
    by (simp add: item_step_with_published)
  from Cons.IH [OF this] ps(1,2) show ?case
    by (simp add: with_published_append)
qed

lemma fan_out_ok:
  "list_all2 (\<lambda>it p. item_step e self t it = Inr p) its ps \<Longrightarrow>
   fan_out e t its self = (None, with_published self ps)"
  using fan_out_split [of e self t its ps "[]"] by simp

lemma fan_out_fail:
  "list_all2 (\<lambda>it p. item_step e self t it = Inr p) pre ps \<Longrightarrow>
   item_step e self t bad = Inl ex \<Longrightarrow>
   fan_out e t (pre @ bad # post) self = (Some ex, with_published self ps)"
  using fan_out_split [of e self t pre ps "bad # post"]
  by (simp add: item_step_with_published)

lemma try_body_seq:
  "get_value e task = Inr payload \<Longrightarrow> is_seq payload \<Longrightarrow> is_multitopic t \<Longrightarrow>
   try_body e task t self = fan_out e t (items payload) self"
  by (cases payload) (simp_all add: try_body_def publish_list_items publish_dict_items)

lemma run_task_ok:
  assumes "theClient st = Some self"
    and "Topic e (full_topic_name self topic_name) = Inr t"
    and "try_body e (stripped_task self task) t self = (None, with_published self new)"
  shows "run_task e task topic_name st = (None, st\<lparr>theClient := Some (with_published self new)\<rparr>)"
  using assms by (simp add: run_task_def)

lemma run_task_caught:
  assumes "theClient st = Some self"
    and "Topic e (full_topic_name self topic_name) = Inr t"
    and "try_body e (stripped_task self task) t self = (Some ex, with_published self new)"
  shows "run_task e task topic_name st =
    (case refusal e self (mk_publish self (get_error_topic t) (str_exn ex)) of
       None \<Rightarrow>
         (None, st\<lparr>theClient := Some (with_published self
            (new @ [mk_publish self (get_error_topic t) (str_exn ex)]))\<rparr>)
     | Some x \<Rightarrow> (Some x, st\<lparr>theClient := Some (with_published self new)\<rparr>))"
  using assms
  by (simp add: run_task_def mqttc_publish_eq with_published_append mk_publish_with_published
      refusal_with_published split: option.splits)

lemma same_client: "theClient st = Some self \<Longrightarrow> st\<lparr>theClient := Some self\<rparr> = st"
  by simp

subsection \<open>Faults reported on the error topic\<close>

text \<open>
  Claim C1, amended. The resolved payload is a list or a dict and the topic is not a
  multitopic. Then no data publish is made, and the handler makes exactly one
  \<^verbatim>\<open>publish\<close> call: to the error topic, with the text of the several-values
  exception. If the transport takes that publish, it is the only one and \<^verbatim>\<open>run_task\<close>
  returns normally. If the transport raises on it (paho does for a QoS outside 0..2 and
  for a topic that is empty, longer than 65535 bytes or holds \<^verbatim>\<open>+\<close> or \<^verbatim>\<open>#\<close>), or
  if the client has no \<^verbatim>\<open>mqttc\<close>, nothing is published and that exception leaves
  \<^verbatim>\<open>run_task\<close>. The \<^verbatim>\<open>Topic\<close> has been constructed: its constructor is called
  before the \<^verbatim>\<open>try\<close>.
\<close>

theorem multivalued_on_plain_topic:
  assumes "theClient st = Some self"
    and "Topic e (full_topic_name self topic_name) = Inr t"
    and "get_value e (stripped_task self task) = Inr payload"
    and "is_seq payload"
    and "\<not> is_multitopic t"
  shows "run_task e task topic_name st =
    (case refusal e self (mk_publish self (get_error_topic t)
            (str_exn (several_values (stripped_task self task)))) of
       None \<Rightarrow>
         (None, st\<lparr>theClient := Some (with_published self
            [mk_publish self (get_error_topic t)
               (str_exn (several_values (stripped_task self task)))])\<rparr>)
     | Some x \<Rightarrow> (Some x, st))"
proof -
  have "try_body e (stripped_task self task) t self =
      (Some (several_values (stripped_task self task)), with_published self [])"
    using assms(3-5) by (simp add: try_body_def with_published_Nil)
  from run_task_caught [OF assms(1,2) this] same_client [OF assms(1)] show ?thesis
    by (simp add: with_published_Nil split: option.splits)
qed

text \<open>
  Claim C2, amended. \<^verbatim>\<open>get_value\<close> raises \<open>ex\<close> for the task. Then no data publish is
  made, the exception is caught, and the handler makes exactly one \<^verbatim>\<open>publish\<close> call:
  to the error topic, with \<^verbatim>\<open>str(ex)\<close>. If the transport takes that publish, it is the
  only one and \<^verbatim>\<open>run_task\<close> returns normally. If the transport raises on it, or if the
  client has no \<^verbatim>\<open>mqttc\<close>, nothing is published and that second exception leaves
  \<^verbatim>\<open>run_task\<close>: the handler's publish is inside no \<^verbatim>\<open>try\<close>.
\<close>

theorem resolver_error_reported:
  assumes "theClient st = Some self"
    and "Topic e (full_topic_name self topic_name) = Inr t"
    and "get_value e (stripped_task self task) = Inl ex"
  shows "run_task e task topic_name st =
    (case refusal e self (mk_publish self (get_error_topic t) (str_exn ex)) of
       None \<Rightarrow>
         (None, st\<lparr>theClient := Some (with_published self
            [mk_publish self (get_error_topic t) (str_exn ex)])\<rparr>)
     | Some x \<Rightarrow> (Some x, st))"
proof -
  have "try_body e (stripped_task self task) t self = (Some ex, with_published self [])"
    using assms(3) by (simp add: try_body_def with_published_Nil)
  from run_task_caught [OF assms(1,2) this] same_client [OF assms(1)] show ?thesis
    by (simp add: with_published_Nil split: option.splits)
qed

text \<open>
  Claim C10, amended. The resolved payload is the empty list or the empty dict. On a
  multitopic \<^verbatim>\<open>run_task\<close> returns normally and nothing is published: the process is as
  it was. On any other topic the several-values exception is raised although there is
  no element, and the handler makes exactly one \<^verbatim>\<open>publish\<close> call, to the error topic:
  if the transport takes it, it is the only publish and \<^verbatim>\<open>run_task\<close> returns normally;
  if the transport raises on it, or if the client has no \<^verbatim>\<open>mqttc\<close>, nothing is
  published and that exception leaves \<^verbatim>\<open>run_task\<close>.
\<close>

theorem empty_collection:
  assumes "theClient st = Some self"
    and "Topic e (full_topic_name self topic_name) = Inr t"
    and "get_value e (stripped_task self task) = Inr payload"
    and "payload = PList [] \<or> payload = PDict []"
  shows "run_task e task topic_name st =
    (if is_multitopic t then (None, st)
     else
       (case refusal e self (mk_publish self (get_error_topic t)
               (str_exn (several_values (stripped_task self task)))) of
          None \<Rightarrow>
            (None, st\<lparr>theClient := Some (with_published self
               [mk_publish self (get_error_topic t)
                  (str_exn (several_values (stripped_task self task)))])\<rparr>)
        | Some x \<Rightarrow> (Some x, st)))"
proof (cases "is_multitopic t")
  case True
  have "try_body e (stripped_task self task) t self = (None, with_published self [])"
    using assms(3,4) True by (auto simp: try_body_def with_published_Nil)
  from run_task_ok [OF assms(1,2) this] True same_client [OF assms(1)] show ?thesis
    by (simp add: with_published_Nil split: option.splits)
next
  case False
  have "try_body e (stripped_task self task) t self =
      (Some (several_values (stripped_task self task)), with_published self [])"
    using assms(3,4) False by (auto simp: try_body_def with_published_Nil)
  from run_task_caught [OF assms(1,2) this] False same_client [OF assms(1)] show ?thesis
    by (simp add: with_published_Nil split: option.splits)
qed

subsection \<open>Serialisation\<close>

text \<open>
  Claim C4. \<^verbatim>\<open>payload_as_string\<close> of a list of length one is \<^verbatim>\<open>payload_as_string\<close> of
  its element, whatever the element is, in every environment, and also where
  \<^verbatim>\<open>str\<close> or \<^verbatim>\<open>json.dumps\<close> raise for the element: the same exception is raised
  for the list.
\<close>

theorem single_element_flattening:
  "payload_as_string e (PList [v]) = payload_as_string e v"
  by simp

lemma item_step_Inr:
  assumes "str e (fst it) = Inr k" and "payload_as_string e (snd it) = Inr s"
    and "refusal e self (mk_publish self (get_subtopic t k) s) = None"
  shows "item_step e self t it = Inr (mk_publish self (get_subtopic t k) s)"
  using assms by (simp add: item_step_def)

subsection \<open>Fan-out\<close>

text \<open>
  Claim C3, amended. The resolved payload is a dict and the topic is a multitopic. If
  \<^verbatim>\<open>str\<close> returns for every key (the texts \<open>ks\<close>), \<^verbatim>\<open>payload_as_string\<close> returns for
  every value (the texts \<open>ss\<close>) and the transport takes the publish of every item, then
  \<^verbatim>\<open>run_task\<close> returns normally and what it has published is exactly one publish per
  key, in the dict's order, to the subtopic of \<^verbatim>\<open>str(key)\<close> with the payload
  \<^verbatim>\<open>payload_as_string(value)\<close>; the topics published to are the subtopics of the
  keys' texts, no more, no fewer. Where one of the three fails for an item, the loop
  ends there; that case is the next statement.
\<close>

theorem mapping_fan_out:
  assumes "theClient st = Some self"
    and "Topic e (full_topic_name self topic_name) = Inr t"
    and "get_value e (stripped_task self task) = Inr (PDict kvs)"
    and "is_multitopic t"
    and "list_all2 (\<lambda>kv k. str e (fst kv) = Inr k) kvs ks"
    and "list_all2 (\<lambda>kv s. payload_as_string e (snd kv) = Inr s) kvs ss"
    and "\<forall>p\<in>set (map2 (\<lambda>k s. mk_publish self (get_subtopic t k) s) ks ss).
           refusal e self p = None"
  shows "run_task e task topic_name st =
      (None, st\<lparr>theClient := Some (with_published self
         (map2 (\<lambda>k s. mk_publish self (get_subtopic t k) s) ks ss))\<rparr>)
    \<and> pub_topic ` set (map2 (\<lambda>k s. mk_publish self (get_subtopic t k) s) ks ss)
        = get_subtopic t ` set ks"
proof
  let ?ps = "map2 (\<lambda>k s. mk_publish self (get_subtopic t k) s) ks ss"
  have "list_all2 (\<lambda>it p. item_step e self t it = Inr p) kvs ?ps"
    using assms(5,6,7)
  proof (induction kvs arbitrary: ks ss)
    case Nil
    then show ?case by simp
  next
    case (Cons kv kvs)
    from Cons.prems(1) obtain k ks' where k: "ks = k # ks'" "str e (fst kv) = Inr k"
      "list_all2 (\<lambda>kv k. str e (fst kv) = Inr k) kvs ks'"
      by (auto simp: list_all2_Cons1)
    from Cons.prems(2) obtain s ss' where s: "ss = s # ss'"
      "payload_as_string e (snd kv) = Inr s"
      "list_all2 (\<lambda>kv s. payload_as_string e (snd kv) = Inr s) kvs ss'"
      by (auto simp: list_all2_Cons1)
    from Cons.prems(3) k(1) s(1)
    have ok: "refusal e self (mk_publish self (get_subtopic t k) s) = None"
      and rest: "\<forall>p\<in>set (map2 (\<lambda>k s. mk_publish self (get_subtopic t k) s) ks' ss').
           refusal e self p = None"
      by simp_all
    from Cons.IH [OF k(3) s(3) rest] item_step_Inr [OF k(2) s(2) ok] k(1) s(1)
    show ?case by simp
  qed
  from fan_out_ok [OF this]
  have "try_body e (stripped_task self task) t self = (None, with_published self ?ps)"
    using try_body_seq [OF assms(3) _ assms(4)] by simp
  from run_task_ok [OF assms(1,2) this]
  show "run_task e task topic_name st = (None, st\<lparr>theClient := Some (with_published self ?ps)\<rparr>)" .
next
  have len: "length ks = length ss"
    using assms(5,6) by (auto dest!: list_all2_lengthD)
  have "map pub_topic (map2 (\<lambda>k s. mk_publish self (get_subtopic t k) s) ks ss)
      = map (get_subtopic t) ks"
    using len by (induction ks ss rule: list_induct2) (simp_all add: mk_publish_def)
  then have "set (map pub_topic (map2 (\<lambda>k s. mk_publish self (get_subtopic t k) s) ks ss))
      = set (map (get_subtopic t) ks)"
    by simp
  then show "pub_topic ` set (map2 (\<lambda>k s. mk_publish self (get_subtopic t k) s) ks ss)
        = get_subtopic t ` set ks"
    by (simp only: set_map)
qed

text \<open>
  Claim C9, amended. The resolved payload is a list or a dict, the topic is a
  multitopic, the loop publishes the items before item \<open>k\<close> (the publishes \<open>ps\<close>), and the
  step for item \<open>k\<close> raises \<open>ex\<close>: in \<^verbatim>\<open>str\<close> of the index or key, in
  \<^verbatim>\<open>payload_as_string\<close> of the value (serialising), or in the transport (publishing).
  Then \<open>ps\<close> stay published, no later item is published, and the handler makes exactly one
  \<^verbatim>\<open>publish\<close> call, to the error topic, with \<^verbatim>\<open>str(ex)\<close>. If the transport takes that
  publish, it follows \<open>ps\<close> and \<^verbatim>\<open>run_task\<close> returns normally. If the transport raises
  on it, it is not published, \<open>ps\<close> still stay, and that exception leaves \<^verbatim>\<open>run_task\<close>.
\<close>

theorem fan_out_not_atomic:
  assumes "theClient st = Some self"
    and "Topic e (full_topic_name self topic_name) = Inr t"
    and "get_value e (stripped_task self task) = Inr payload"
    and "is_seq payload"
    and "is_multitopic t"
    and "k < length (items payload)"
    and "list_all2 (\<lambda>it p. item_step e self t it = Inr p) (take k (items payload)) ps"
    and "item_step e self t (items payload ! k) = Inl ex"
  shows "run_task e task topic_name st =
    (case refusal e self (mk_publish self (get_error_topic t) (str_exn ex)) of
       None \<Rightarrow>
         (None, st\<lparr>theClient := Some (with_published self
            (ps @ [mk_publish self (get_error_topic t) (str_exn ex)]))\<rparr>)
     | Some x \<Rightarrow> (Some x, st\<lparr>theClient := Some (with_published self ps)\<rparr>))"
proof -
  have split: "items payload = take k (items payload) @ (items payload ! k) # drop (Suc k) (items payload)"
    using assms(6) by (simp add: id_take_nth_drop [symmetric])
  have "fan_out e t (items payload) self = (Some ex, with_published self ps)"
    using fan_out_fail [OF assms(7,8), of "drop (Suc k) (items payload)"] split by simp
  then have "try_body e (stripped_task self task) t self = (Some ex, with_published self ps)"
    using try_body_seq [OF assms(3,4,5)] by simp
  from run_task_caught [OF assms(1,2) this] show ?thesis .
qed

subsection \<open>What every step keeps\<close>

lemma mqttc_publish_shape:
  assumes "mqttc_publish e self t s = (r, self')"
  shows "\<exists>new. self' = with_published self new \<and>
     (\<forall>p\<in>set new. pub_qos p = qos self \<and> pub_retain p = retain self)"
proof (cases "refusal e self (mk_publish self t s)")
  case None
  with assms have "self' = with_published self [mk_publish self t s]"
    by (simp add: mqttc_publish_eq)
  moreover have "\<forall>p\<in>set [mk_publish self t s]. pub_qos p = qos self \<and> pub_retain p = retain self"
    by (simp add: mk_publish_def)
  ultimately show ?thesis by blast
next
  case (Some x)
  with assms have "self' = with_published self []"
    by (simp add: mqttc_publish_eq with_published_Nil)
  then show ?thesis by fastforce
qed

lemma fan_out_shape:
  "fan_out e t its self = (r, self') \<Longrightarrow>
   \<exists>new. self' = with_published self new \<and>
     (\<forall>p\<in>set new. pub_qos p = qos self \<and> pub_retain p = retain self)"
proof (induction its arbitrary: self)
  case Nil
  then have "self' = with_published self []" by (simp add: with_published_Nil)
  then show ?case by fastforce
next
  case (Cons it its)
  show ?case
  proof (cases "item_step e self t it")
    case (Inl ex)
    with Cons.prems have "self' = with_published self []" by (simp add: with_published_Nil)
    then show ?thesis by fastforce
  next
    case (Inr p)
    then have p: "pub_qos p = qos self \<and> pub_retain p = retain self"
      by (auto simp: item_step_def mk_publish_def split: sum.splits option.splits)
    from Cons.prems Inr
    have "fan_out e t its (with_published self [p]) = (r, self')"
      by simp
    from Cons.IH [OF this] obtain new where
      new: "self' = with_published self ([p] @ new)"
        "\<forall>p\<in>set new. pub_qos p = qos self \<and> pub_retain p = retain self"
      by (auto simp: with_published_append with_published_fields)
    have "\<forall>q\<in>set ([p] @ new). pub_qos q = qos self \<and> pub_retain q = retain self"
      using new(2) p by simp
    with new(1) show ?thesis by blast
  qed
qed

lemma try_body_shape:
  assumes "try_body e task t self = (r, self')"
  shows "\<exists>new. self' = with_published self new \<and>
     (\<forall>p\<in>set new. pub_qos p = qos self \<and> pub_retain p = retain self)"
proof (cases "get_value e task")
  case (Inl ex)
  with assms have "self' = with_published self []"
    by (simp add: try_body_def with_published_Nil)
  then show ?thesis by fastforce
next
  case (Inr payload)
  show ?thesis
  proof (cases "is_seq payload \<and> \<not> is_multitopic t")
    case True
    with assms Inr have "self' = with_published self []"
      by (simp add: try_body_def with_published_Nil)
    then show ?thesis by fastforce
  next
    case False
    show ?thesis
    proof (cases payload)
      case (Atom a)
      show ?thesis
      proof (cases "payload_as_string e payload")
        case (Inl ex)
        with assms Inr False Atom have "self' = with_published self []"
          by (simp add: try_body_def with_published_Nil)
        then show ?thesis by fastforce
      next
        case s: (Inr s)
        with assms Inr False Atom have "mqttc_publish e self (get_topic t) s = (r, self')"
          by (simp add: try_body_def)
        then show ?thesis by (rule mqttc_publish_shape)
      qed
    next
      case (PList vs)
      with assms Inr False have "fan_out e t (items payload) self = (r, self')"
        by (simp add: try_body_def publish_list_items)
      then show ?thesis by (rule fan_out_shape)
    next
      case (PDict kvs)
      with assms Inr False have "fan_out e t (items payload) self = (r, self')"
        by (simp add: try_body_def publish_dict_items)
      then show ?thesis by (rule fan_out_shape)
    qed
  qed
qed

lemma run_task_shape:
  assumes "theClient st = Some self" and "run_task e task topic_name st = (r, st')"
  shows "\<exists>new. st' = st\<lparr>theClient := Some (with_published self new)\<rparr> \<and>
     (\<forall>p\<in>set new. pub_qos p = qos self \<and> pub_retain p = retain self)"
proof (cases "Topic e (full_topic_name self topic_name)")
  case (Inl ex)
  with assms have "st' = st\<lparr>theClient := Some (with_published self [])\<rparr>"
    by (simp add: run_task_def with_published_Nil)
  then show ?thesis by fastforce
next
  case (Inr t)
  obtain r1 self1 where tb: "try_body e (stripped_task self task) t self = (r1, self1)"
    by (cases "try_body e (stripped_task self task) t self")
  from try_body_shape [OF tb] obtain new where
    new: "self1 = with_published self new"
      "\<forall>p\<in>set new. pub_qos p = qos self \<and> pub_retain p = retain self"
    by blast
  show ?thesis
  proof (cases r1)
    case None
    with assms Inr tb new(1) have "st' = st\<lparr>theClient := Some (with_published self new)\<rparr>"
      by (simp add: run_task_def)
    with new(2) show ?thesis by blast
  next
    case (Some ex)
    obtain r2 self2 where
      mp: "mqttc_publish e self1 (get_error_topic t) (str_exn ex) = (r2, self2)"
      by (cases "mqttc_publish e self1 (get_error_topic t) (str_exn ex)")
    from mqttc_publish_shape [OF mp] new(1) obtain more where
      m: "self2 = with_published self (new @ more)"
        "\<forall>p\<in>set more. pub_qos p = qos self \<and> pub_retain p = retain self"
      by (auto simp: with_published_append with_published_fields)
    from assms Inr tb Some mp have "st' = st\<lparr>theClient := Some self2\<rparr>"
      by (simp add: run_task_def)
    with m new(2) have "st' = st\<lparr>theClient := Some (with_published self (new @ more))\<rparr>"
      "\<forall>p\<in>set (new @ more). pub_qos p = qos self \<and> pub_retain p = retain self"
      by auto
    then show ?thesis by blast
  qed
qed

lemma unchanged_shape:
  assumes "theClient st = Some self"
  shows "\<exists>self' new. theClient st = Some self' \<and> py_debug st = py_debug st \<and>
     qos self' = qos self \<and> retain self' = retain self \<and>
     (\<forall>m. mqttc self = Some m \<longrightarrow>
        (\<exists>m'. mqttc self' = Some m' \<and> published m' = published m @ new)) \<and>
     (\<forall>p\<in>set new. pub_qos p = qos self \<and> pub_retain p = retain self)"
  using assms by (intro exI [of _ self] exI [of _ "[]"]) simp

lemma published_shape:
  assumes "theClient st = Some self"
    and "st' = st\<lparr>theClient := Some (with_published self new)\<rparr>"
    and "\<forall>p\<in>set new. pub_qos p = qos self \<and> pub_retain p = retain self"
  shows "\<exists>self' new. theClient st' = Some self' \<and> py_debug st' = py_debug st \<and>
     qos self' = qos self \<and> retain self' = retain self \<and>
     (\<forall>m. mqttc self = Some m \<longrightarrow>
        (\<exists>m'. mqttc self' = Some m' \<and> published m' = published m @ new)) \<and>
     (\<forall>p\<in>set new. pub_qos p = qos self \<and> pub_retain p = retain self)"
  using assms
  by (intro exI [of _ "with_published self new"] exI [of _ new])
    (simp add: with_published_def)

lemma step_shape:
  assumes "step st st'" and "theClient st = Some self"
  shows "\<exists>self' new. theClient st' = Some self' \<and> py_debug st' = py_debug st \<and>
     qos self' = qos self \<and> retain self' = retain self \<and>
     (\<forall>m. mqttc self = Some m \<longrightarrow>
        (\<exists>m'. mqttc self' = Some m' \<and> published m' = published m @ new)) \<and>
     (\<forall>p\<in>set new. pub_qos p = qos self \<and> pub_retain p = retain self)"
  using assms
proof (cases rule: step.cases)
  case (task e task topic_name r)
  from run_task_shape [OF assms(2) task] obtain new where
    "st' = st\<lparr>theClient := Some (with_published self new)\<rparr>"
    "\<forall>p\<in>set new. pub_qos p = qos self \<and> pub_retain p = retain self"
    by blast
  from published_shape [OF assms(2) this] show ?thesis .
next
  case (callback e ev r)
  show ?thesis
  proof (cases "mqttc self = None")
    case True
    with callback assms(2) have "st' = st" by (simp add: handle_def)
    with unchanged_shape [OF assms(2)] show ?thesis by simp
  next
    case False
    show ?thesis
    proof (cases ev)
      case Connected
      with callback assms(2) False
      have st': "st' = st\<lparr>theClient := Some (snd (on_connect e self))\<rparr>"
        by (auto simp: handle_def split: prod.splits)
      have "qos (snd (on_connect e self)) = qos self"
        "retain (snd (on_connect e self)) = retain self"
        "\<forall>m. mqttc self = Some m \<longrightarrow>
           (\<exists>m'. mqttc (snd (on_connect e self)) = Some m' \<and> published m' = published m @ [])"
        by (auto simp: on_connect_def split: option.splits)
      with st' show ?thesis
        by (intro exI [of _ "snd (on_connect e self)"] exI [of _ "[]"]) simp
    next
      case Disconnected
      with callback assms(2) False have "st' = st\<lparr>theClient := Some self\<rparr>"
        by (simp add: handle_def on_disconnect_def)
      with assms(2) have "st' = st" by simp
      with unchanged_shape [OF assms(2)] show ?thesis by simp
    next
      case (Message m)
      show ?thesis
      proof (cases "startswith m (request_topic self)")
        case True
        with callback assms(2) Message False
        have "run_task e (drop (length (request_topic self)) m)
            (drop (length (request_topic self)) m) st = (r, st')"
          by (simp add: handle_def on_message_def Let_def)
        from run_task_shape [OF assms(2) this] obtain new where
          "st' = st\<lparr>theClient := Some (with_published self new)\<rparr>"
          "\<forall>p\<in>set new. pub_qos p = qos self \<and> pub_retain p = retain self"
          by blast
        from published_shape [OF assms(2) this] show ?thesis .
      next
        case no: False
        with callback assms(2) Message False have "st' = st"
          by (simp add: handle_def on_message_def)
        with unchanged_shape [OF assms(2)] show ?thesis by simp
      qed
    qed
  qed
qed

lemma steps_invariant:
  assumes "step\<^sup>*\<^sup>* st1 st"
    and "theClient st1 = Some self1" and "qos self1 = q" and "retain self1 = r"
    and "mqttc self1 = Some m1"
    and "\<forall>p\<in>set (published m1). pub_qos p = q \<and> pub_retain p = r"
  shows "\<exists>self m. theClient st = Some self \<and> py_debug st = py_debug st1 \<and>
     qos self = q \<and> retain self = r \<and> mqttc self = Some m \<and>
     (\<forall>p\<in>set (published m). pub_qos p = q \<and> pub_retain p = r)"
  using assms(1)
proof (induction rule: rtranclp_induct)
  case base
  with assms(2-6) show ?case by simp
next
  case (step y z)
  from step.IH obtain self m where
    s: "theClient y = Some self" "py_debug y = py_debug st1" "qos self = q" "retain self = r"
      "mqttc self = Some m"
      "\<forall>p\<in>set (published m). pub_qos p = q \<and> pub_retain p = r"
    by blast
  from step_shape [OF step.hyps(2) s(1)] obtain self' new where
    n: "theClient z = Some self'" "py_debug z = py_debug y"
      "qos self' = qos self" "retain self' = retain self"
      "\<forall>m. mqttc self = Some m \<longrightarrow>
         (\<exists>m'. mqttc self' = Some m' \<and> published m' = published m @ new)"
      "\<forall>p\<in>set new. pub_qos p = qos self \<and> pub_retain p = retain self"
    by blast
  from n(5) s(5) obtain m' where m': "mqttc self' = Some m'" "published m' = published m @ new"
    by auto
  with n(6) s(3,4,6) have "\<forall>p\<in>set (published m'). pub_qos p = q \<and> pub_retain p = r"
    by auto
  with n s m' show ?case by simp
qed

lemma steps_keep_client:
  assumes "step\<^sup>*\<^sup>* st1 st" and "theClient st1 = Some self1"
  shows "theClient st \<noteq> None \<and> py_debug st = py_debug st1"
  using assms(1)
proof (induction rule: rtranclp_induct)
  case base
  with assms(2) show ?case by simp
next
  case (step y z)
  then obtain self where "theClient y = Some self" by auto
  from step_shape [OF step.hyps(2) this] step.IH show ?case by auto
qed

text \<open>
  Claim C8. \<^verbatim>\<open>__init__\<close> stores the configured QoS level and retain flag in the client;
  whatever callbacks and \<^verbatim>\<open>run_task\<close> calls follow, in whatever environment, the client
  keeps both, and every publish the transport has taken from it, data or error, carries
  exactly these two values.
\<close>

theorem uniform_qos_retain:
  assumes "MqttClient_init e cid clean prefix request q r st0 = (Inr self0, st1)"
    and "step\<^sup>*\<^sup>* st1 st"
  shows "\<exists>self m. theClient st = Some self \<and> qos self = q \<and> retain self = r \<and>
     mqttc self = Some m \<and> (\<forall>p\<in>set (published m). pub_qos p = q \<and> pub_retain p = r)"
proof -
  from assms(1) obtain m0 where "theClient st1 = Some self0" "qos self0 = q" "retain self0 = r"
    "mqttc self0 = Some m0" "published m0 = []"
    by (auto simp: MqttClient_init_def Let_def split: if_splits option.splits)
  then have "theClient st1 = Some self0" "qos self0 = q" "retain self0 = r"
    "mqttc self0 = Some m0"
    "\<forall>p\<in>set (published m0). pub_qos p = q \<and> pub_retain p = r"
    by simp_all
  from steps_invariant [OF assms(2) this] show ?thesis by blast
qed

subsection \<open>The single client\<close>

text \<open>
  Claim C6, amended. While \<^verbatim>\<open>assert\<close> statements are executed (\<^verbatim>\<open>__debug__\<close> is
  true, the interpreter's default), a construction in a process that has no client
  registers the instance before it calls \<^verbatim>\<open>paho.Client\<close>. If that call returns, the
  construction succeeds and the registered instance is complete. If that call raises
  (paho does for an empty client id with \<^verbatim>\<open>clean_session\<close> false), the exception leaves
  \<^verbatim>\<open>__init__\<close> and the instance stays registered without its \<^verbatim>\<open>mqttc\<close>. Either way,
  whatever callbacks and \<^verbatim>\<open>run_task\<close> calls happen in between, every further
  construction raises \<^verbatim>\<open>AssertionError\<close> in \<^verbatim>\<open>__init__\<close> and leaves the process as it
  was.
\<close>

theorem single_client_while_asserts_run:
  assumes "py_debug st0" and "theClient st0 = None"
    and "MqttClient_init e cid clean prefix request q r st0 = (res, st1)"
    and "step\<^sup>*\<^sup>* st1 st"
  shows "(case paho_Client e cid clean of
            None \<Rightarrow> (\<exists>self. res = Inr self \<and> theClient st1 = Some self \<and> mqttc self \<noteq> None)
          | Some ex \<Rightarrow> res = Inl ex \<and> (\<exists>self. theClient st1 = Some self \<and> mqttc self = None))
       \<and> MqttClient_init e' cid' clean' prefix' request' q' r' st
           = (Inl (Exn ''AssertionError'' []), st)"
proof -
  from assms(1-3) obtain self where s: "theClient st1 = Some self" "py_debug st1"
    by (auto simp: MqttClient_init_def Let_def split: option.splits)
  from steps_keep_client [OF assms(4) s(1)] s(2)
  have "theClient st \<noteq> None" "py_debug st" by auto
  then have "MqttClient_init e' cid' clean' prefix' request' q' r' st =
      (Inl (Exn ''AssertionError'' []), st)"
    by (simp add: MqttClient_init_def)
  moreover have "case paho_Client e cid clean of
            None \<Rightarrow> (\<exists>self. res = Inr self \<and> theClient st1 = Some self \<and> mqttc self \<noteq> None)
          | Some ex \<Rightarrow> res = Inl ex \<and> (\<exists>self. theClient st1 = Some self \<and> mqttc self = None)"
    using assms(1-3) by (auto simp: MqttClient_init_def Let_def split: option.splits)
  ultimately show ?thesis by blast
qed

lemmas example_defs =
  example_env_def example_process_def example_client_def example_topic_def
  full_topic_name_def stripped_task_def startswith_def

lemmas transport_defs =
  refusal_def mk_publish_def paho_publish_1_6_def utf8_encode_error_def is_surrogate_def
  utf8_length_def

lemmas run_defs =
  run_task_def try_body_def mqttc_publish_def several_values_def outbox_def
  str_int_def str_nat.simps digit_char_def

section \<open>The scenarios, evaluated\<close>

text \<open>
  Each statement above is applied here to the client of the examples, in the
  environment of CPython 3.11 and paho-mqtt 1.6, and its hypotheses are discharged by
  evaluation. The statements named \<open>counterexample\<close> evaluate the module where the
  sentence of the specification does not hold of it.
\<close>

text \<open>
  A dict on the plain topic \<^verbatim>\<open>disk/usage\<close>: one publish, to the error topic.
\<close>

theorem multivalued_on_plain_topic_witness:
  "theClient example_process = Some example_client
   \<and> Topic (example_env (Inr disks)) (full_topic_name example_client (lit ''disk/usage''))
       = Inr (example_topic (lit ''psmqtt/host/disk/usage''))
   \<and> get_value (example_env (Inr disks)) (stripped_task example_client (lit ''disk/usage''))
       = Inr disks
   \<and> is_seq disks
   \<and> \<not> is_multitopic (example_topic (lit ''psmqtt/host/disk/usage''))
   \<and> run_task (example_env (Inr disks)) (lit ''disk/usage'') (lit ''disk/usage'') example_process =
       (None, example_process\<lparr>theClient := Some (with_published example_client
          [\<lparr>pub_topic = lit ''psmqtt/host/disk/usage/error'',
            pub_payload = str_exn (several_values (lit ''disk/usage'')),
            pub_qos = 1, pub_retain = True\<rparr>])\<rparr>)"
proof -
  let ?e = "example_env (Inr disks)"
  have h1: "theClient example_process = Some example_client"
    by (simp add: example_process_def)
  have h2: "Topic ?e (full_topic_name example_client (lit ''disk/usage''))
       = Inr (example_topic (lit ''psmqtt/host/disk/usage''))"
    by (simp add: example_defs)
  have h3: "get_value ?e (stripped_task example_client (lit ''disk/usage'')) = Inr disks"
    by (simp add: example_env_def)
  have h4: "is_seq disks" by (simp add: disks_def)
  have h5: "\<not> is_multitopic (example_topic (lit ''psmqtt/host/disk/usage''))"
    by (simp add: example_topic_def)
  have ok: "refusal ?e example_client
      (mk_publish example_client (get_error_topic (example_topic (lit ''psmqtt/host/disk/usage'')))
         (str_exn (several_values (stripped_task example_client (lit ''disk/usage''))))) = None"
    by (simp add: example_defs transport_defs several_values_def)
  have p: "mk_publish example_client (get_error_topic (example_topic (lit ''psmqtt/host/disk/usage'')))
         (str_exn (several_values (stripped_task example_client (lit ''disk/usage''))))
      = \<lparr>pub_topic = lit ''psmqtt/host/disk/usage/error'',
            pub_payload = str_exn (several_values (lit ''disk/usage'')),
            pub_qos = 1, pub_retain = True\<rparr>"
    by (simp add: example_defs mk_publish_def)
  from multivalued_on_plain_topic [OF h1 h2 h3 h4 h5] ok p h1 h2 h3 h4 h5 show ?thesis
    by simp
qed

text \<open>
  The same dict on the plain topic \<^verbatim>\<open>disk/+/usage\<close>: the error topic holds a \<^verbatim>\<open>+\<close>,
  paho refuses the handler's publish, \<^verbatim>\<open>ValueError\<close> leaves \<^verbatim>\<open>run_task\<close> and nothing
  is published.
\<close>

theorem multivalued_on_plain_topic_counterexample:
  "theClient example_process = Some example_client
   \<and> get_value (example_env (Inr disks)) (stripped_task example_client (lit ''disk/+/usage''))
       = Inr (PDict [(AStr (lit ''sda''), Atom (AInt 10)), (AStr (lit ''sdb''), Atom (AInt 20))])
   \<and> Topic (example_env (Inr disks)) (full_topic_name example_client (lit ''disk/+/usage''))
       = Inr (example_topic (lit ''psmqtt/host/disk/+/usage''))
   \<and> \<not> is_multitopic (example_topic (lit ''psmqtt/host/disk/+/usage''))
   \<and> run_task (example_env (Inr disks)) (lit ''disk/+/usage'') (lit ''disk/+/usage'')
        example_process
       = (Some (Exn ''ValueError'' (lit ''Publish topic cannot contain wildcards.'')),
          example_process)
   \<and> outbox example_process = []"
  by (simp add: example_defs transport_defs run_defs disks_def)

text \<open>
  \<^verbatim>\<open>get_value\<close> raises "disk not found" for \<^verbatim>\<open>disk/usage\<close>: one publish, to the error
  topic, with that text.
\<close>

theorem resolver_error_reported_witness:
  "theClient example_process = Some example_client
   \<and> Topic (example_env (Inl (Exn ''Exception'' (lit ''disk not found''))))
         (full_topic_name example_client (lit ''disk/usage''))
       = Inr (example_topic (lit ''psmqtt/host/disk/usage''))
   \<and> get_value (example_env (Inl (Exn ''Exception'' (lit ''disk not found''))))
         (stripped_task example_client (lit ''disk/usage''))
       = Inl (Exn ''Exception'' (lit ''disk not found''))
   \<and> run_task (example_env (Inl (Exn ''Exception'' (lit ''disk not found''))))
         (lit ''disk/usage'') (lit ''disk/usage'') example_process =
       (None, example_process\<lparr>theClient := Some (with_published example_client
          [\<lparr>pub_topic = lit ''psmqtt/host/disk/usage/error'',
            pub_payload = lit ''disk not found'', pub_qos = 1, pub_retain = True\<rparr>])\<rparr>)"
proof -
  let ?e = "example_env (Inl (Exn ''Exception'' (lit ''disk not found'')))"
  have h1: "theClient example_process = Some example_client"
    by (simp add: example_process_def)
  have h2: "Topic ?e (full_topic_name example_client (lit ''disk/usage''))
       = Inr (example_topic (lit ''psmqtt/host/disk/usage''))"
    by (simp add: example_defs)
  have h3: "get_value ?e (stripped_task example_client (lit ''disk/usage''))
       = Inl (Exn ''Exception'' (lit ''disk not found''))"
    by (simp add: example_env_def)
  have p: "mk_publish example_client
        (get_error_topic (example_topic (lit ''psmqtt/host/disk/usage'')))
        (str_exn (Exn ''Exception'' (lit ''disk not found'')))
      = \<lparr>pub_topic = lit ''psmqtt/host/disk/usage/error'',
         pub_payload = lit ''disk not found'', pub_qos = 1, pub_retain = True\<rparr>"
    by (simp add: example_defs mk_publish_def)
  have ok: "refusal ?e example_client
      \<lparr>pub_topic = lit ''psmqtt/host/disk/usage/error'',
       pub_payload = lit ''disk not found'', pub_qos = 1, pub_retain = True\<rparr> = None"
    by (simp add: example_defs transport_defs)
  from resolver_error_reported [OF h1 h2 h3] ok p h1 h2 h3 show ?thesis
    by simp
qed

text \<open>
  \<^verbatim>\<open>get_value\<close> raises "disk not found" for \<^verbatim>\<open>disk/+/usage\<close>: paho refuses the
  handler's publish, \<^verbatim>\<open>ValueError\<close> leaves \<^verbatim>\<open>run_task\<close> and nothing is published.
\<close>

theorem resolver_error_reported_counterexample:
  "theClient example_process = Some example_client
   \<and> get_value (example_env (Inl (Exn ''Exception'' (lit ''disk not found''))))
         (stripped_task example_client (lit ''disk/+/usage''))
       = Inl (Exn ''Exception'' (lit ''disk not found''))
   \<and> run_task (example_env (Inl (Exn ''Exception'' (lit ''disk not found''))))
         (lit ''disk/+/usage'') (lit ''disk/+/usage'') example_process
       = (Some (Exn ''ValueError'' (lit ''Publish topic cannot contain wildcards.'')),
          example_process)
   \<and> outbox example_process = []"
  by (simp add: example_defs transport_defs run_defs)

text \<open>
  The empty list on the multitopic \<^verbatim>\<open>cpu/*\<close>: nothing changes. The empty dict on the
  plain topic \<^verbatim>\<open>cpu/percent\<close>: one publish, to the error topic.
\<close>

theorem empty_collection_witness:
  "theClient example_process = Some example_client
   \<and> Topic (example_env (Inr (PList []))) (full_topic_name example_client (lit ''cpu/*''))
       = Inr (example_topic (lit ''psmqtt/host/cpu/*''))
   \<and> get_value (example_env (Inr (PList []))) (stripped_task example_client (lit ''cpu/*''))
       = Inr (PList [])
   \<and> (PList [] = PList [] \<or> PList [] = PDict [])
   \<and> run_task (example_env (Inr (PList []))) (lit ''cpu/*'') (lit ''cpu/*'') example_process
       = (None, example_process)
   \<and> Topic (example_env (Inr (PDict []))) (full_topic_name example_client (lit ''cpu/percent''))
       = Inr (example_topic (lit ''psmqtt/host/cpu/percent''))
   \<and> get_value (example_env (Inr (PDict [])))
         (stripped_task example_client (lit ''cpu/percent''))
       = Inr (PDict [])
   \<and> (PDict [] = PList [] \<or> PDict [] = PDict [])
   \<and> run_task (example_env (Inr (PDict []))) (lit ''cpu/percent'') (lit ''cpu/percent'')
        example_process =
       (None, example_process\<lparr>theClient := Some (with_published example_client
          [\<lparr>pub_topic = lit ''psmqtt/host/cpu/percent/error'',
            pub_payload = str_exn (several_values (lit ''cpu/percent'')),
            pub_qos = 1, pub_retain = True\<rparr>])\<rparr>)"
proof -
  let ?e = "example_env (Inr (PList []))"
  have h1: "theClient example_process = Some example_client"
    by (simp add: example_process_def)
  have h2: "Topic ?e (full_topic_name example_client (lit ''cpu/*''))
       = Inr (example_topic (lit ''psmqtt/host/cpu/*''))"
    by (simp add: example_defs)
  have h3: "get_value ?e (stripped_task example_client (lit ''cpu/*'')) = Inr (PList [])"
    by (simp add: example_env_def)
  have h4: "PList [] = PList [] \<or> PList [] = PDict []"
    by simp
  have "is_multitopic (example_topic (lit ''psmqtt/host/cpu/*''))"
    by (simp add: example_topic_def)
  with empty_collection [OF h1 h2 h3 h4]
  have first: "run_task ?e (lit ''cpu/*'') (lit ''cpu/*'') example_process = (None, example_process)"
    by simp
  let ?d = "example_env (Inr (PDict []))"
  have g2: "Topic ?d (full_topic_name example_client (lit ''cpu/percent''))
       = Inr (example_topic (lit ''psmqtt/host/cpu/percent''))"
    by (simp add: example_defs)
  have g3: "get_value ?d (stripped_task example_client (lit ''cpu/percent'')) = Inr (PDict [])"
    by (simp add: example_env_def)
  have g4: "PDict [] = PList [] \<or> PDict [] = PDict []"
    by simp
  have plain: "\<not> is_multitopic (example_topic (lit ''psmqtt/host/cpu/percent''))"
    by (simp add: example_topic_def)
  have p: "mk_publish example_client
        (get_error_topic (example_topic (lit ''psmqtt/host/cpu/percent'')))
        (str_exn (several_values (stripped_task example_client (lit ''cpu/percent''))))
      = \<lparr>pub_topic = lit ''psmqtt/host/cpu/percent/error'',
         pub_payload = str_exn (several_values (lit ''cpu/percent'')),
         pub_qos = 1, pub_retain = True\<rparr>"
    by (simp add: example_defs mk_publish_def)
  have ok: "refusal ?d example_client
      \<lparr>pub_topic = lit ''psmqtt/host/cpu/percent/error'',
       pub_payload = str_exn (several_values (lit ''cpu/percent'')),
       pub_qos = 1, pub_retain = True\<rparr> = None"
    by (simp add: example_defs transport_defs several_values_def)
  from empty_collection [OF h1 g2 g3 g4] plain p ok
  have second: "run_task ?d (lit ''cpu/percent'') (lit ''cpu/percent'') example_process =
       (None, example_process\<lparr>theClient := Some (with_published example_client
          [\<lparr>pub_topic = lit ''psmqtt/host/cpu/percent/error'',
            pub_payload = str_exn (several_values (lit ''cpu/percent'')),
            pub_qos = 1, pub_retain = True\<rparr>])\<rparr>)"
    by simp
  from first second h1 h2 h3 g2 g3 show ?thesis
    by simp
qed

text \<open>
  The empty list on the plain topic \<^verbatim>\<open>disk/+/usage\<close>: paho refuses the handler's
  publish, \<^verbatim>\<open>ValueError\<close> leaves \<^verbatim>\<open>run_task\<close> and nothing is published.
\<close>

theorem empty_collection_counterexample:
  "theClient example_process = Some example_client
   \<and> get_value (example_env (Inr (PList [])))
         (stripped_task example_client (lit ''disk/+/usage''))
       = Inr (PList [])
   \<and> Topic (example_env (Inr (PList []))) (full_topic_name example_client (lit ''disk/+/usage''))
       = Inr (example_topic (lit ''psmqtt/host/disk/+/usage''))
   \<and> \<not> is_multitopic (example_topic (lit ''psmqtt/host/disk/+/usage''))
   \<and> run_task (example_env (Inr (PList []))) (lit ''disk/+/usage'') (lit ''disk/+/usage'')
        example_process
       = (Some (Exn ''ValueError'' (lit ''Publish topic cannot contain wildcards.'')),
          example_process)
   \<and> outbox example_process = []"
  by (simp add: example_defs transport_defs run_defs)

text \<open>
  \<^verbatim>\<open>{"sda": 10, "sdb": 20}\<close> on \<^verbatim>\<open>disk/*/usage\<close>: two publishes, \<^verbatim>\<open>10\<close> to
  \<^verbatim>\<open>.../disk/sda/usage\<close> and \<^verbatim>\<open>20\<close> to \<^verbatim>\<open>.../disk/sdb/usage\<close>.
\<close>

theorem mapping_fan_out_witness:
  "theClient example_process = Some example_client
   \<and> Topic (example_env (Inr disks)) (full_topic_name example_client (lit ''disk/*/usage''))
       = Inr (example_topic (lit ''psmqtt/host/disk/*/usage''))
   \<and> get_value (example_env (Inr disks)) (stripped_task example_client (lit ''disk/*/usage''))
       = Inr (PDict [(AStr (lit ''sda''), Atom (AInt 10)), (AStr (lit ''sdb''), Atom (AInt 20))])
   \<and> is_multitopic (example_topic (lit ''psmqtt/host/disk/*/usage''))
   \<and> list_all2 (\<lambda>kv k. str (example_env (Inr disks)) (fst kv) = Inr k)
        [(AStr (lit ''sda''), Atom (AInt 10)), (AStr (lit ''sdb''), Atom (AInt 20))]
        [lit ''sda'', lit ''sdb'']
   \<and> list_all2 (\<lambda>kv s. payload_as_string (example_env (Inr disks)) (snd kv) = Inr s)
        [(AStr (lit ''sda''), Atom (AInt 10)), (AStr (lit ''sdb''), Atom (AInt 20))]
        [lit ''10'', lit ''20'']
   \<and> refusal (example_env (Inr disks)) example_client
         \<lparr>pub_topic = lit ''psmqtt/host/disk/sda/usage'', pub_payload = lit ''10'',
          pub_qos = 1, pub_retain = True\<rparr> = None
   \<and> refusal (example_env (Inr disks)) example_client
         \<lparr>pub_topic = lit ''psmqtt/host/disk/sdb/usage'', pub_payload = lit ''20'',
          pub_qos = 1, pub_retain = True\<rparr> = None
   \<and> run_task (example_env (Inr disks)) (lit ''disk/*/usage'') (lit ''disk/*/usage'')
        example_process =
       (None, example_process\<lparr>theClient := Some (with_published example_client
          [\<lparr>pub_topic = lit ''psmqtt/host/disk/sda/usage'', pub_payload = lit ''10'',
            pub_qos = 1, pub_retain = True\<rparr>,
           \<lparr>pub_topic = lit ''psmqtt/host/disk/sdb/usage'', pub_payload = lit ''20'',
            pub_qos = 1, pub_retain = True\<rparr>])\<rparr>)"
proof -
  let ?e = "example_env (Inr disks)"
  let ?t = "example_topic (lit ''psmqtt/host/disk/*/usage'')"
  let ?kvs = "[(AStr (lit ''sda''), Atom (AInt 10)), (AStr (lit ''sdb''), Atom (AInt 20))]"
  let ?ps = "[\<lparr>pub_topic = lit ''psmqtt/host/disk/sda/usage'', pub_payload = lit ''10'',
                  pub_qos = 1, pub_retain = True\<rparr>,
                \<lparr>pub_topic = lit ''psmqtt/host/disk/sdb/usage'', pub_payload = lit ''20'',
                  pub_qos = 1, pub_retain = True\<rparr>]"
  have h1: "theClient example_process = Some example_client"
    by (simp add: example_process_def)
  have h2: "Topic ?e (full_topic_name example_client (lit ''disk/*/usage'')) = Inr ?t"
    by (simp add: example_defs)
  have h3: "get_value ?e (stripped_task example_client (lit ''disk/*/usage'')) = Inr (PDict ?kvs)"
    by (simp add: example_env_def disks_def)
  have h4: "is_multitopic ?t"
    by (simp add: example_topic_def)
  have h5: "list_all2 (\<lambda>kv k. str ?e (fst kv) = Inr k) ?kvs [lit ''sda'', lit ''sdb'']"
    by (simp add: example_env_def)
  have h6: "list_all2 (\<lambda>kv s. payload_as_string ?e (snd kv) = Inr s) ?kvs [lit ''10'', lit ''20'']"
    by (simp add: example_env_def str_int_def str_nat.simps digit_char_def)
  have ps: "map2 (\<lambda>k s. mk_publish example_client (get_subtopic ?t k) s)
        [lit ''sda'', lit ''sdb''] [lit ''10'', lit ''20''] = ?ps"
    by (simp add: example_defs mk_publish_def)
  have ok: "refusal ?e example_client
         \<lparr>pub_topic = lit ''psmqtt/host/disk/sda/usage'', pub_payload = lit ''10'',
          pub_qos = 1, pub_retain = True\<rparr> = None"
      "refusal ?e example_client
         \<lparr>pub_topic = lit ''psmqtt/host/disk/sdb/usage'', pub_payload = lit ''20'',
          pub_qos = 1, pub_retain = True\<rparr> = None"
    by (simp_all add: example_defs transport_defs)
  then have "\<forall>p\<in>set ?ps. refusal ?e example_client p = None"
    by simp
  with ps
  have h7: "\<forall>p\<in>set (map2 (\<lambda>k s. mk_publish example_client (get_subtopic ?t k) s)
        [lit ''sda'', lit ''sdb''] [lit ''10'', lit ''20'']). refusal ?e example_client p = None"
    by (simp only:)
  from mapping_fan_out [OF h1 h2 h3 h4 h5 h6 h7] ps
  have "run_task ?e (lit ''disk/*/usage'') (lit ''disk/*/usage'') example_process =
       (None, example_process\<lparr>theClient := Some (with_published example_client ?ps)\<rparr>)"
    by (simp only:)
  with h1 h2 h3 h4 h5 h6 ok show ?thesis
    by (simp only: simp_thms)
qed

text \<open>
  \<^verbatim>\<open>{"a+b": 1, "c#": 2}\<close> on \<^verbatim>\<open>disk/*\<close>: paho refuses the subtopic of the first key,
  the loop ends, and the only publish is the one to the error topic; neither key is
  published.
\<close>

theorem mapping_fan_out_counterexample:
  "theClient example_process = Some example_client
   \<and> get_value (example_env (Inr wildcard_keys)) (stripped_task example_client (lit ''disk/*''))
       = Inr (PDict [(AStr (lit ''a+b''), Atom (AInt 1)), (AStr (lit ''c#''), Atom (AInt 2))])
   \<and> Topic (example_env (Inr wildcard_keys)) (full_topic_name example_client (lit ''disk/*''))
       = Inr (example_topic (lit ''psmqtt/host/disk/*''))
   \<and> is_multitopic (example_topic (lit ''psmqtt/host/disk/*''))
   \<and> run_task (example_env (Inr wildcard_keys)) (lit ''disk/*'') (lit ''disk/*'') example_process
       = (None, example_process\<lparr>theClient := Some (with_published example_client
            [\<lparr>pub_topic = lit ''psmqtt/host/disk/*/error'',
              pub_payload = lit ''Publish topic cannot contain wildcards.'',
              pub_qos = 1, pub_retain = True\<rparr>])\<rparr>)"
  by (simp add: example_defs transport_defs run_defs wildcard_keys_def with_published_def)

text \<open>
  \<^verbatim>\<open>{"sda": 10, "a+b": 20, "sdc": 30}\<close> on \<^verbatim>\<open>disk/*\<close>: the first item is published,
  paho refuses the subtopic of the second, the third is never published, and the error
  topic receives paho's message.
\<close>

theorem fan_out_not_atomic_witness:
  "theClient example_process = Some example_client
   \<and> Topic (example_env (Inr mixed_keys)) (full_topic_name example_client (lit ''disk/*''))
       = Inr (example_topic (lit ''psmqtt/host/disk/*''))
   \<and> get_value (example_env (Inr mixed_keys)) (stripped_task example_client (lit ''disk/*''))
       = Inr mixed_keys
   \<and> is_seq mixed_keys
   \<and> is_multitopic (example_topic (lit ''psmqtt/host/disk/*''))
   \<and> 1 < length (items mixed_keys)
   \<and> list_all2 (\<lambda>it p. item_step (example_env (Inr mixed_keys)) example_client
                   (example_topic (lit ''psmqtt/host/disk/*'')) it = Inr p)
        (take 1 (items mixed_keys))
        [\<lparr>pub_topic = lit ''psmqtt/host/disk/sda'', pub_payload = lit ''10'',
          pub_qos = 1, pub_retain = True\<rparr>]
   \<and> item_step (example_env (Inr mixed_keys)) example_client
        (example_topic (lit ''psmqtt/host/disk/*'')) (items mixed_keys ! 1)
       = Inl (Exn ''ValueError'' (lit ''Publish topic cannot contain wildcards.''))
   \<and> run_task (example_env (Inr mixed_keys)) (lit ''disk/*'') (lit ''disk/*'') example_process =
       (None, example_process\<lparr>theClient := Some (with_published example_client
          [\<lparr>pub_topic = lit ''psmqtt/host/disk/sda'', pub_payload = lit ''10'',
            pub_qos = 1, pub_retain = True\<rparr>,
           \<lparr>pub_topic = lit ''psmqtt/host/disk/*/error'',
            pub_payload = lit ''Publish topic cannot contain wildcards.'',
            pub_qos = 1, pub_retain = True\<rparr>])\<rparr>)"
proof -
  let ?e = "example_env (Inr mixed_keys)"
  let ?t = "example_topic (lit ''psmqtt/host/disk/*'')"
  let ?p = "\<lparr>pub_topic = lit ''psmqtt/host/disk/sda'', pub_payload = lit ''10'',
          pub_qos = 1, pub_retain = True\<rparr>"
  let ?ex = "Exn ''ValueError'' (lit ''Publish topic cannot contain wildcards.'')"
  have h1: "theClient example_process = Some example_client"
    by (simp add: example_process_def)
  have h2: "Topic ?e (full_topic_name example_client (lit ''disk/*'')) = Inr ?t"
    by (simp add: example_defs)
  have h3: "get_value ?e (stripped_task example_client (lit ''disk/*'')) = Inr mixed_keys"
    by (simp add: example_env_def)
  have h4: "is_seq mixed_keys" by (simp add: mixed_keys_def)
  have h5: "is_multitopic ?t"
    by (simp add: example_topic_def)
  have h6: "1 < length (items mixed_keys)" by (simp add: mixed_keys_def)
  have h7: "list_all2 (\<lambda>it p. item_step ?e example_client ?t it = Inr p)
      (take 1 (items mixed_keys)) [?p]"
    by (simp add: mixed_keys_def item_step_def example_defs transport_defs
        str_int_def str_nat.simps digit_char_def)
  have h8: "item_step ?e example_client ?t (items mixed_keys ! 1) = Inl ?ex"
    by (simp add: mixed_keys_def item_step_def example_defs transport_defs
        str_int_def str_nat.simps digit_char_def)
  have p: "mk_publish example_client (get_error_topic ?t) (str_exn ?ex)
      = \<lparr>pub_topic = lit ''psmqtt/host/disk/*/error'',
         pub_payload = lit ''Publish topic cannot contain wildcards.'',
         pub_qos = 1, pub_retain = True\<rparr>"
    by (simp add: example_defs mk_publish_def)
  have ok: "refusal ?e example_client
      \<lparr>pub_topic = lit ''psmqtt/host/disk/*/error'',
       pub_payload = lit ''Publish topic cannot contain wildcards.'',
       pub_qos = 1, pub_retain = True\<rparr> = None"
    by (simp add: example_defs transport_defs)
  from fan_out_not_atomic [OF h1 h2 h3 h4 h5 h6 h7 h8] p ok
  have "run_task ?e (lit ''disk/*'') (lit ''disk/*'') example_process =
       (None, example_process\<lparr>theClient := Some (with_published example_client
          [?p, \<lparr>pub_topic = lit ''psmqtt/host/disk/*/error'',
            pub_payload = lit ''Publish topic cannot contain wildcards.'',
            pub_qos = 1, pub_retain = True\<rparr>])\<rparr>)"
    by simp
  with h1 h2 h3 h4 h5 h6 h7 h8 show ?thesis
    by (simp only: simp_thms)
qed

text \<open>
  \<^verbatim>\<open>[1, 2]\<close> on the multitopic \<^verbatim>\<open>disk/+/*\<close>: paho refuses the publish of the first
  element and then the handler's publish as well; \<^verbatim>\<open>ValueError\<close> leaves
  \<^verbatim>\<open>run_task\<close> and nothing is published.
\<close>

theorem fan_out_not_atomic_counterexample:
  "theClient example_process = Some example_client
   \<and> get_value (example_env (Inr (PList [Atom (AInt 1), Atom (AInt 2)])))
         (stripped_task example_client (lit ''disk/+/*''))
       = Inr (PList [Atom (AInt 1), Atom (AInt 2)])
   \<and> Topic (example_env (Inr (PList [Atom (AInt 1), Atom (AInt 2)])))
         (full_topic_name example_client (lit ''disk/+/*''))
       = Inr (example_topic (lit ''psmqtt/host/disk/+/*''))
   \<and> is_multitopic (example_topic (lit ''psmqtt/host/disk/+/*''))
   \<and> paho_publish (example_env (Inr (PList [Atom (AInt 1), Atom (AInt 2)])))
        \<lparr>pub_topic = lit ''psmqtt/host/disk/+/0'', pub_payload = lit ''1'',
         pub_qos = 1, pub_retain = True\<rparr>
       = Some (Exn ''ValueError'' (lit ''Publish topic cannot contain wildcards.''))
   \<and> run_task (example_env (Inr (PList [Atom (AInt 1), Atom (AInt 2)])))
        (lit ''disk/+/*'') (lit ''disk/+/*'') example_process
       = (Some (Exn ''ValueError'' (lit ''Publish topic cannot contain wildcards.'')),
          example_process)
   \<and> outbox example_process = []"
  by (simp add: example_defs transport_defs run_defs)

lemma example_init:
  "MqttClient_init (example_env answer) (lit ''psmqtt'') True (lit ''psmqtt/host/'')
     (lit ''psmqtt/host/request/'') 1 True (fresh_process True)
   = (Inr example_client, example_process)"
  by (simp add: MqttClient_init_def Let_def fresh_process_def example_client_def
      example_process_def example_env_def paho_Client_1_6_def utf8_encode_error_def
      is_surrogate_def)

text \<open>
  The client of the examples is the one \<^verbatim>\<open>__init__\<close> builds, and after
  \<^verbatim>\<open>run_task("cpu/percent", "cpu/percent")\<close> with the answer 42 its one publish
  carries QoS 1 and retain.
\<close>

theorem uniform_qos_retain_witness:
  "MqttClient_init (example_env (Inr (Atom (AInt 42)))) (lit ''psmqtt'') True
       (lit ''psmqtt/host/'') (lit ''psmqtt/host/request/'') 1 True (fresh_process True)
     = (Inr example_client, example_process)
   \<and> step\<^sup>*\<^sup>* example_process
        (snd (run_task (example_env (Inr (Atom (AInt 42)))) (lit ''cpu/percent'')
                (lit ''cpu/percent'') example_process))
   \<and> outbox (snd (run_task (example_env (Inr (Atom (AInt 42)))) (lit ''cpu/percent'')
                (lit ''cpu/percent'') example_process))
       = [\<lparr>pub_topic = lit ''psmqtt/host/cpu/percent'', pub_payload = lit ''42'',
           pub_qos = 1, pub_retain = True\<rparr>]
   \<and> (\<exists>self m. theClient (snd (run_task (example_env (Inr (Atom (AInt 42))))
                (lit ''cpu/percent'') (lit ''cpu/percent'') example_process)) = Some self
         \<and> qos self = 1 \<and> retain self = True \<and> mqttc self = Some m
         \<and> (\<forall>p\<in>set (published m). pub_qos p = 1 \<and> pub_retain p = True))"
proof -
  let ?e = "example_env (Inr (Atom (AInt 42)))"
  let ?r = "run_task ?e (lit ''cpu/percent'') (lit ''cpu/percent'') example_process"
  have h1: "MqttClient_init ?e (lit ''psmqtt'') True (lit ''psmqtt/host/'')
       (lit ''psmqtt/host/request/'') 1 True (fresh_process True)
     = (Inr example_client, example_process)"
    by (rule example_init)
  have "step example_process (snd ?r)"
    by (rule step.task [of ?e "lit ''cpu/percent''" "lit ''cpu/percent''" example_process
          "fst ?r"]) simp
  then have h2: "step\<^sup>*\<^sup>* example_process (snd ?r)"
    by (rule r_into_rtranclp)
  have out: "outbox (snd ?r)
       = [\<lparr>pub_topic = lit ''psmqtt/host/cpu/percent'', pub_payload = lit ''42'',
           pub_qos = 1, pub_retain = True\<rparr>]"
    by (simp add: example_defs transport_defs run_defs)
  from uniform_qos_retain [OF h1 h2] h1 h2 out show ?thesis
    by blast
qed

text \<open>
  With asserts executed, a second construction after the first and a \<^verbatim>\<open>run_task\<close>
  call raises \<^verbatim>\<open>AssertionError\<close>.
\<close>

theorem single_client_while_asserts_run_witness:
  "py_debug (fresh_process True) \<and> theClient (fresh_process True) = None
   \<and> MqttClient_init (example_env (Inr (Atom (AInt 42)))) (lit ''psmqtt'') True
       (lit ''psmqtt/host/'') (lit ''psmqtt/host/request/'') 1 True (fresh_process True)
     = (Inr example_client, example_process)
   \<and> step\<^sup>*\<^sup>* example_process
        (snd (run_task (example_env (Inr (Atom (AInt 42)))) (lit ''cpu/percent'')
                (lit ''cpu/percent'') example_process))
   \<and> paho_Client (example_env (Inr (Atom (AInt 42)))) (lit ''psmqtt'') True = None
   \<and> theClient example_process = Some example_client
   \<and> mqttc example_client \<noteq> None
   \<and> MqttClient_init (example_env (Inr (Atom (AInt 42)))) (lit ''second'') False
        (lit ''other/'') (lit ''other/request/'') 0 False
        (snd (run_task (example_env (Inr (Atom (AInt 42)))) (lit ''cpu/percent'')
                (lit ''cpu/percent'') example_process))
       = (Inl (Exn ''AssertionError'' []),
          snd (run_task (example_env (Inr (Atom (AInt 42)))) (lit ''cpu/percent'')
                (lit ''cpu/percent'') example_process))"
proof -
  let ?e = "example_env (Inr (Atom (AInt 42)))"
  let ?r = "run_task ?e (lit ''cpu/percent'') (lit ''cpu/percent'') example_process"
  have h1: "py_debug (fresh_process True)" and h2: "theClient (fresh_process True) = None"
    by (simp_all add: fresh_process_def)
  have h3: "MqttClient_init ?e (lit ''psmqtt'') True (lit ''psmqtt/host/'')
       (lit ''psmqtt/host/request/'') 1 True (fresh_process True)
     = (Inr example_client, example_process)"
    by (rule example_init)
  have "step example_process (snd ?r)"
    by (rule step.task [of ?e "lit ''cpu/percent''" "lit ''cpu/percent''" example_process
          "fst ?r"]) simp
  then have h4: "step\<^sup>*\<^sup>* example_process (snd ?r)"
    by (rule r_into_rtranclp)
  have accepted: "paho_Client ?e (lit ''psmqtt'') True = None"
    by (simp add: example_env_def paho_Client_1_6_def utf8_encode_error_def is_surrogate_def)
  have reg: "theClient example_process = Some example_client" "mqttc example_client \<noteq> None"
    by (simp_all add: example_process_def example_client_def)
  from single_client_while_asserts_run [OF h1 h2 h3 h4,
      of ?e "lit ''second''" False "lit ''other/''" "lit ''other/request/''" 0 False]
  have "MqttClient_init ?e (lit ''second'') False (lit ''other/'') (lit ''other/request/'') 0 False
        (snd ?r) = (Inl (Exn ''AssertionError'' []), snd ?r)"
    by (rule conjunct2)
  with h1 h2 h3 h4 accepted reg show ?thesis
    by (simp only: simp_thms)
qed

text \<open>
  Under \<^verbatim>\<open>python -O\<close> two constructions in a row both succeed, and the second
  instance replaces the first as \<^verbatim>\<open>theClient\<close>.
\<close>

theorem single_client_counterexample:
  "\<not> py_debug (fresh_process False)
   \<and> theClient (fresh_process False) = None
   \<and> \<not> isl (fst (MqttClient_init (example_env (Inr (Atom (AInt 42)))) (lit ''psmqtt'') True
                (lit ''psmqtt/host/'') (lit ''psmqtt/host/request/'') 1 True
                (fresh_process False)))
   \<and> \<not> isl (fst (MqttClient_init (example_env (Inr (Atom (AInt 42)))) (lit ''second'') True
        (lit ''other/'') (lit ''other/request/'') 0 False
        (snd (MqttClient_init (example_env (Inr (Atom (AInt 42)))) (lit ''psmqtt'') True
                (lit ''psmqtt/host/'') (lit ''psmqtt/host/request/'') 1 True
                (fresh_process False)))))
   \<and> map_option topic_prefix
        (theClient (snd (MqttClient_init (example_env (Inr (Atom (AInt 42)))) (lit ''second'') True
        (lit ''other/'') (lit ''other/request/'') 0 False
        (snd (MqttClient_init (example_env (Inr (Atom (AInt 42)))) (lit ''psmqtt'') True
                (lit ''psmqtt/host/'') (lit ''psmqtt/host/request/'') 1 True
                (fresh_process False))))))
     = Some (lit ''other/'')"
  by (simp add: MqttClient_init_def Let_def fresh_process_def example_env_def
      paho_Client_1_6_def utf8_encode_error_def is_surrogate_def)

end
